theory Spec2Isabelle
  imports Complex_Main "HOL-Library.Sublist"
begin

section \<open>Python values and the collaborators of \<^verbatim>\<open>main.py\<close>\<close>

text \<open>
  A Python \<^verbatim>\<open>str\<close> is a \<^typ>\<open>string\<close> whose characters are the code points below 256.
  The values that \<^verbatim>\<open>json.loads\<close> and \<^verbatim>\<open>response.json()\<close> produce are the type
  \<open>json\<close>: \<open>JNull\<close> is Python's \<^verbatim>\<open>None\<close>, a float is given by its rational value,
  and a \<^verbatim>\<open>dict\<close> is the association list of its items (looked up with \<^const>\<open>map_of\<close>).
\<close>

datatype json =
    JNull
  | JBool bool
  | JInt int
  | JFloat rat
  | JStr string
  | JArr "json list"
  | JObj "(string \<times> json) list"

text \<open>
  The subclasses of \<^verbatim>\<open>Exception\<close> the program can meet. \<open>RequestException\<close> is any
  exception of \<^verbatim>\<open>requests\<close> other than a timeout or an HTTP error,
  \<open>JSONDecodeError\<close> is the one of the \<^verbatim>\<open>json\<close> module, \<open>OtherException\<close> is any
  other subclass of \<^verbatim>\<open>Exception\<close>.
\<close>

datatype exn =
    Timeout
  | HTTPError
  | RequestException
  | JSONDecodeError
  | KeyError
  | IndexError
  | TypeError
  | AttributeError
  | UnboundLocalError
  | OtherException

definition isinstance_RequestException :: "exn \<Rightarrow> bool" where
  "isinstance_RequestException e = (e = Timeout \<or> e = HTTPError \<or> e = RequestException)"

text \<open>What \<^verbatim>\<open>requests.get\<close> returns: the status code, and what \<^verbatim>\<open>.json()\<close> gives.\<close>

record http_response =
  status_code :: int
  json_body :: "exn + json"

text \<open>
  The collaborators, over a state \<open>'w\<close> of the outside world that every call may
  read and change: the Gemini call (its \<^verbatim>\<open>.text\<close> may be \<^verbatim>\<open>None\<close>) and the HTTP GET
  with its timeout. The library functions \<^verbatim>\<open>json.loads\<close>, \<^verbatim>\<open>repr\<close> and
  \<^verbatim>\<open>requests.utils.quote\<close> and the API key of the environment are parameters too.
\<close>

record 'w env =
  generate_content :: "'w \<Rightarrow> string \<Rightarrow> (exn + string option) \<times> 'w"
  requests_get :: "'w \<Rightarrow> string \<Rightarrow> nat \<Rightarrow> (exn + http_response) \<times> 'w"
  json_loads :: "string \<Rightarrow> exn + json"
  py_repr :: "json \<Rightarrow> string"
  quote :: "string \<Rightarrow> string"
  WEATHER_API_KEY :: string

text \<open>The functions that the registry \<^verbatim>\<open>TOOLS\<close> can hold.\<close>

datatype tool = Get_weather

text \<open>
  The calls a run makes, in order: \<open>ToolCall f ps\<close> is the call
  \<^verbatim>\<open>tool_function(**parameters)\<close> of line 192, whether or not the arguments bind.
  Writes to standard output are not modelled.
\<close>

datatype event =
    GenerateContent string
  | ToolCall tool json
  | RequestsGet string nat

subsection \<open>Python operations on these values\<close>

fun truthy :: "json \<Rightarrow> bool" where
  "truthy JNull = False"
| "truthy (JBool b) = b"
| "truthy (JInt i) = (i \<noteq> 0)"
| "truthy (JFloat r) = (r \<noteq> 0)"
| "truthy (JStr s) = (s \<noteq> [])"
| "truthy (JArr xs) = (xs \<noteq> [])"
| "truthy (JObj kvs) = (kvs \<noteq> [])"

fun hashable :: "json \<Rightarrow> bool" where
  "hashable (JArr xs) = False"
| "hashable (JObj kvs) = False"
| "hashable v = True"

text \<open>\<^verbatim>\<open>str(v)\<close>, which an f-string applies: a string is itself, any other value its \<^verbatim>\<open>repr\<close>.\<close>

definition py_str :: "'w env \<Rightarrow> json \<Rightarrow> string" where
  "py_str env v = (case v of JStr s \<Rightarrow> s | _ \<Rightarrow> py_repr env v)"

definition dict_get :: "(string \<times> json) list \<Rightarrow> string \<Rightarrow> json \<Rightarrow> json" where
  "dict_get kvs k d = (case map_of kvs k of None \<Rightarrow> d | Some v \<Rightarrow> v)"

text \<open>\<^verbatim>\<open>v.get(k, d)\<close>: only a dict has the method.\<close>

fun py_get :: "json \<Rightarrow> string \<Rightarrow> json \<Rightarrow> exn + json" where
  "py_get (JObj kvs) k d = Inr (dict_get kvs k d)"
| "py_get v k d = Inl AttributeError"

text \<open>\<^verbatim>\<open>v[0]\<close>: the keys of a dict from JSON are strings, so \<^verbatim>\<open>0\<close> is never one.\<close>

fun py_index0 :: "json \<Rightarrow> exn + json" where
  "py_index0 (JArr (x # xs)) = Inr x"
| "py_index0 (JArr []) = Inl IndexError"
| "py_index0 (JStr (c # cs)) = Inr (JStr [c])"
| "py_index0 (JStr []) = Inl IndexError"
| "py_index0 (JObj kvs) = Inl KeyError"
| "py_index0 v = Inl TypeError"

text \<open>\<^verbatim>\<open>p in v\<close> for a string \<open>p\<close>: a key of a dict, an element of a list, a substring.\<close>

fun py_in :: "string \<Rightarrow> json \<Rightarrow> exn + bool" where
  "py_in p (JObj kvs) = Inr (p \<in> fst ` set kvs)"
| "py_in p (JArr xs) = Inr (JStr p \<in> set xs)"
| "py_in p (JStr s) = Inr (sublist p s)"
| "py_in p v = Inl TypeError"

text \<open>\<^verbatim>\<open>all(param in parameters for param in required_params)\<close>, stopping at the first miss.\<close>

fun all_in :: "string list \<Rightarrow> json \<Rightarrow> exn + bool" where
  "all_in [] ps = Inr True"
| "all_in (p # rest) ps =
     (case py_in p ps of
        Inl e \<Rightarrow> Inl e
      | Inr b \<Rightarrow> if b then all_in rest ps else Inr False)"

definition isspace :: "char \<Rightarrow> bool" where
  "isspace c = (of_char c \<in> {9, 10, 11, 12, 13, 28, 29, 30, 31, 32, 133, 160 :: nat})"

definition strip :: "string \<Rightarrow> string" where
  "strip s = rev (dropWhile isspace (rev (dropWhile isspace s)))"

text \<open>\<^verbatim>\<open>s.replace(old, new)\<close> for a non-empty \<open>old\<close>, from the left, without overlap.\<close>

fun replace :: "char \<Rightarrow> string \<Rightarrow> string \<Rightarrow> string \<Rightarrow> string" where
  "replace o1 old new [] = []"
| "replace o1 old new (c # cs) =
     (if c = o1 \<and> prefix old cs then new @ replace o1 old new (drop (length old) cs)
      else c # replace o1 old new cs)"

fun join :: "string \<Rightarrow> string list \<Rightarrow> string" where
  "join sep [] = []"
| "join sep [x] = x"
| "join sep (x # y # ys) = x @ sep @ join sep (y # ys)"

section \<open>The weather tool\<close>

definition ERR_NO_LOCATION :: string where
  "ERR_NO_LOCATION = ''Error: Please specify a location for the weather.''"

definition ERR_TIMEOUT :: string where
  "ERR_TIMEOUT = ''Error: The weather service took too long to respond. Please try again later.''"

definition ERR_CONNECT :: string where
  "ERR_CONNECT = ''Error: Could not connect to the weather service. Please check your connection or try again later.''"

definition ERR_FORMAT :: string where
  "ERR_FORMAT = ''Error: Received an unexpected response format from the weather service.''"

definition ERR_UNEXPECTED :: string where
  "ERR_UNEXPECTED = ''Error: An unexpected error occurred while fetching weather data.''"

definition weather_sentence :: "string \<Rightarrow> string \<Rightarrow> string \<Rightarrow> string \<Rightarrow> string \<Rightarrow> string" where
  "weather_sentence city_name description temperature feels_like humidity =
     ''The weather in '' @ city_name @ '' is currently '' @ description @
     '' with a temperature of '' @ temperature @ [CHR 0xB0] @ ''C (feels like '' @
     feels_like @ [CHR 0xB0] @ ''C) and humidity of '' @ humidity @ ''%.''"

definition complete_url :: "'w env \<Rightarrow> string \<Rightarrow> string" where
  "complete_url env location =
     ''http://api.openweathermap.org/data/2.5/weather?'' @ ''appid='' @ WEATHER_API_KEY env @
     ''&q='' @ quote env location @ ''&units=metric''"

text \<open>
  Lines 68 to 92: what \<^verbatim>\<open>get_weather\<close> makes of the decoded body \<open>data\<close>; \<open>Inl\<close> is
  an exception raised inside the \<^verbatim>\<open>try\<close>. \<^verbatim>\<open>200 == 200.0\<close> holds in Python.
\<close>

definition cod_200 :: "json \<Rightarrow> bool" where
  "cod_200 v = (v = JInt 200 \<or> v = JFloat 200)"

definition describe :: "json \<Rightarrow> exn + json" where
  "describe weather_list =
     (if truthy weather_list then
        (case py_index0 weather_list of
           Inl e \<Rightarrow> Inl e
         | Inr first \<Rightarrow> py_get first ''description'' (JStr ''N/A''))
      else Inr (JStr ''N/A''))"

definition weather_of_data :: "'w env \<Rightarrow> string \<Rightarrow> json \<Rightarrow> exn + string" where
  "weather_of_data env location data =
     (case data of
        JObj d \<Rightarrow>
          if cod_200 (dict_get d ''cod'' JNull) then
            (let main = dict_get d ''main'' (JObj []);
                 weather_list = dict_get d ''weather'' (JArr [])
             in case py_get main ''temp'' (JStr ''N/A'') of
                  Inl e \<Rightarrow> Inl e
                | Inr temperature \<Rightarrow>
                   (case py_get main ''feels_like'' (JStr ''N/A'') of
                      Inl e \<Rightarrow> Inl e
                    | Inr feels_like \<Rightarrow>
                       (case py_get main ''humidity'' (JStr ''N/A'') of
                          Inl e \<Rightarrow> Inl e
                        | Inr humidity \<Rightarrow>
                           (case describe weather_list of
                              Inl e \<Rightarrow> Inl e
                            | Inr description \<Rightarrow>
                               (let city_name = dict_get d ''name'' (JStr location)
                                in Inr (weather_sentence (py_str env city_name)
                                     (py_str env description) (py_str env temperature)
                                     (py_str env feels_like) (py_str env humidity)))))))
          else if dict_get d ''cod'' JNull = JStr ''404'' then
            Inr (''Error: Sorry, I couldn't find weather data for the city '' @ [CHR 0x27] @
                 location @ [CHR 0x27] @ ''. Please check the spelling.'')
          else
            Inr (''Error: Could not retrieve weather data. API reported: '' @
                 py_str env (dict_get d ''message'' (JStr ''Unknown API error'')))
      | _ \<Rightarrow> Inl AttributeError)"

text \<open>
  Lines 63 to 66: \<^verbatim>\<open>raise_for_status\<close> is called for a status of 500 or more, and
  raises for one below 600.
\<close>

definition read_response :: "exn + http_response \<Rightarrow> exn + json" where
  "read_response r =
     (case r of
        Inl e \<Rightarrow> Inl e
      | Inr resp \<Rightarrow>
          if status_code resp \<ge> 500 \<and> status_code resp < 600 then Inl HTTPError
          else json_body resp)"

text \<open>The \<^verbatim>\<open>except\<close> clauses of lines 94 to 106, in their order.\<close>

definition weather_except :: "exn \<Rightarrow> string" where
  "weather_except e =
     (if e = Timeout then ERR_TIMEOUT
      else if isinstance_RequestException e then ERR_CONNECT
      else if e = KeyError then ERR_FORMAT
      else ERR_UNEXPECTED)"

text \<open>
  \<^verbatim>\<open>get_weather(location)\<close>. The argument is whatever the caller bound to it; the test
  \<^verbatim>\<open>location.strip()\<close> on a true value that is not a string raises outside the \<^verbatim>\<open>try\<close>.
\<close>

definition get_weather :: "'w env \<Rightarrow> 'w \<Rightarrow> json \<Rightarrow> (exn + string) \<times> event list \<times> 'w" where
  "get_weather env w location =
     (if \<not> truthy location then (Inr ERR_NO_LOCATION, [], w)
      else case location of
        JStr loc \<Rightarrow>
          if strip loc = [] then (Inr ERR_NO_LOCATION, [], w)
          else
            (let (r, w') = requests_get env w (complete_url env loc) 10;
                 result = (case read_response r of
                             Inl e \<Rightarrow> Inl e
                           | Inr data \<Rightarrow> weather_of_data env loc data)
             in (Inr (case result of Inl e \<Rightarrow> weather_except e | Inr s \<Rightarrow> s),
                 [RequestsGet (complete_url env loc) 10], w'))
      | _ \<Rightarrow> (Inl AttributeError, [], w))"

section \<open>The orchestrator\<close>

definition TOOLS :: "(string \<times> tool) list" where
  "TOOLS = [(''get_weather'', Get_weather)]"

text \<open>\<^verbatim>\<open>tool_function.__code__.co_varnames[:tool_function.__code__.co_argcount]\<close>\<close>

fun co_params :: "tool \<Rightarrow> string list" where
  "co_params Get_weather = [''location'']"

text \<open>
  \<^verbatim>\<open>tool_function(**parameters)\<close>: the value after \<^verbatim>\<open>**\<close> must be a mapping, and its
  keys must be the parameters of the function, none of which has a default.
\<close>

definition call_tool :: "'w env \<Rightarrow> 'w \<Rightarrow> tool \<Rightarrow> json \<Rightarrow> (exn + string) \<times> event list \<times> 'w" where
  "call_tool env w f ps =
     (case ps of
        JObj kvs \<Rightarrow>
          (case f of
             Get_weather \<Rightarrow>
               (case map_of kvs ''location'' of
                  Some location \<Rightarrow>
                    if fst ` set kvs \<subseteq> {''location''} then get_weather env w location
                    else (Inl TypeError, [], w)
                | None \<Rightarrow> (Inl TypeError, [], w)))
      | _ \<Rightarrow> (Inl TypeError, [], w))"

text \<open>
  The local variables of \<^verbatim>\<open>run_agent\<close>; \<open>None\<close> in \<open>parsed_intent\<close> and in
  \<open>required_params\<close> is a name not yet bound, \<open>None\<close> in \<open>tool_result\<close> is \<^verbatim>\<open>None\<close>.
\<close>

record locals =
  parsed_intent :: "json option"
  tool_to_use :: json
  parameters :: json
  tool_result :: "string option"
  required_params :: "string list option"

definition intent_prompt :: "'w env \<Rightarrow> string \<Rightarrow> string" where
  \<open>intent_prompt env user_query =
     ''\<newline>'' @
     ''    Analyze the user's query and determine the primary intent. \<newline>'' @
     ''    Based on the intent, decide if one of the available tools should be used.\<newline>'' @
     ''    Available tools: '' @
     py_repr env (JArr (map (\<lambda>(k, f). JStr k) TOOLS)) @
     ''\<newline>'' @
     ''    \<newline>'' @
     ''    User Query: "'' @
     user_query @
     ''"\<newline>'' @
     ''\<newline>'' @
     ''    Respond in JSON format with the following keys:\<newline>'' @
     ''    - "tool_name": The name of the tool to use (from the available list) or "none" if no tool is needed or the intent is unclear.\<newline>'' @
     ''    - "parameters": An object containing the necessary parameters for the tool (e.g., {"location": "City Name"} for get_weather). If no tool is needed, this should be an empty object {}.\<newline>'' @
     ''\<newline>'' @
     ''    Example 1:\<newline>'' @
     ''    User Query: "What's the weather like in London?"\<newline>'' @
     ''    Response: {"tool_name": "get_weather", "parameters": {"location": "London"}}\<newline>'' @
     ''\<newline>'' @
     ''    Example 2:\<newline>'' @
     ''    User Query: "Tell me a joke."\<newline>'' @
     ''    Response: {"tool_name": "none", "parameters": {}}\<newline>'' @
     ''    \<newline>'' @
     ''    Example 3:\<newline>'' @
     ''    User Query: "What is the capital of France?"\<newline>'' @
     ''    Response: {"tool_name": "none", "parameters": {}} # No specific tool for general knowledge\<newline>'' @
     ''\<newline>'' @
     ''    Example 4: \<newline>'' @
     ''    User Query: "How's the weather?"\<newline>'' @
     ''    Response: {"tool_name": "get_weather", "parameters": {}} # Tool identified, but parameter missing\<newline>'' @
     ''    ''\<close>

text \<open>\<^verbatim>\<open>.strip().replace('```json', '').replace('```', '').strip()\<close>\<close>

definition clean :: "string \<Rightarrow> string" where
  "clean text =
     strip (replace (CHR 0x60) ''``'' [] (replace (CHR 0x60) ''``json'' [] (strip text)))"

definition init_locals :: locals where
  "init_locals =
     \<lparr>parsed_intent = None, tool_to_use = JNull, parameters = JObj [],
      tool_result = None, required_params = None\<rparr>"

text \<open>
  Lines 155 to 180. Both \<^verbatim>\<open>except\<close> clauses set \<^verbatim>\<open>tool_to_use = "none"\<close>. A decoded
  value that is not a dict is bound to \<^verbatim>\<open>parsed_intent\<close> before its \<^verbatim>\<open>.get\<close> raises.
\<close>

definition parse_intent :: "'w env \<Rightarrow> 'w \<Rightarrow> string \<Rightarrow> locals \<times> event list \<times> 'w" where
  "parse_intent env w user_query =
     (let (r, w') = generate_content env w (intent_prompt env user_query);
          failed = init_locals\<lparr>tool_to_use := JStr ''none''\<rparr>
      in ((case r of
             Inl e \<Rightarrow> failed
           | Inr None \<Rightarrow> failed
           | Inr (Some text) \<Rightarrow>
               (case json_loads env (clean text) of
                  Inl e \<Rightarrow> failed
                | Inr v \<Rightarrow>
                    (case v of
                       JObj kvs \<Rightarrow>
                         init_locals\<lparr>parsed_intent := Some v,
                           tool_to_use := dict_get kvs ''tool_name'' JNull,
                           parameters := dict_get kvs ''parameters'' (JObj [])\<rparr>
                     | _ \<Rightarrow> failed\<lparr>parsed_intent := Some v\<rparr>))),
          [GenerateContent (intent_prompt env user_query)], w'))"

text \<open>\<^verbatim>\<open>tool_to_use in TOOLS\<close> for a hashable value: only a string can be a key.\<close>

definition lookup_tool :: "json \<Rightarrow> tool option" where
  "lookup_tool t = (case t of JStr name \<Rightarrow> map_of TOOLS name | _ \<Rightarrow> None)"

definition failed_text :: "'w env \<Rightarrow> json \<Rightarrow> string" where
  "failed_text env t =
     ''Error: Failed to execute the tool '' @ [CHR 0x27] @ py_str env t @ [CHR 0x27] @ ''.''"

definition missing_text :: "'w env \<Rightarrow> json \<Rightarrow> string list \<Rightarrow> string" where
  "missing_text env t required =
     ''Error: I need more information to use the '' @ [CHR 0x27] @ py_str env t @ [CHR 0x27] @
     '' tool. Please provide: '' @ join '', '' required @ ''.''"

definition unavailable_text :: "'w env \<Rightarrow> json \<Rightarrow> string" where
  "unavailable_text env t =
     ''Error: I cannot perform that action as the tool '' @ [CHR 0x27] @ py_str env t @
     [CHR 0x27] @ '' is not available.''"

text \<open>
  Lines 183 to 206. Testing a true list or dict for membership in \<^verbatim>\<open>TOOLS\<close> raises
  (unhashable), and so does \<^verbatim>\<open>param in parameters\<close> on a value that is no container;
  neither is inside a \<^verbatim>\<open>try\<close>.
\<close>

definition execute_tool :: "'w env \<Rightarrow> 'w \<Rightarrow> locals \<Rightarrow> (exn + locals) \<times> event list \<times> 'w" where
  "execute_tool env w l =
     (let t = tool_to_use l in
      if truthy t \<and> \<not> hashable t then (Inl TypeError, [], w)
      else
        (case (if truthy t then lookup_tool t else None) of
           Some tool_function \<Rightarrow>
             (let required = co_params tool_function;
                  l1 = l\<lparr>required_params := Some required\<rparr>
              in case all_in required (parameters l) of
                   Inl e \<Rightarrow> (Inl e, [], w)
                 | Inr ok \<Rightarrow>
                     if ok then
                       (let (r, evs, w') = call_tool env w tool_function (parameters l)
                        in (Inr (l1\<lparr>tool_result :=
                                  Some (case r of Inl e \<Rightarrow> failed_text env t | Inr s \<Rightarrow> s)\<rparr>),
                            ToolCall tool_function (parameters l) # evs, w'))
                     else
                       (Inr (l1\<lparr>tool_result := Some (missing_text env t required),
                                tool_to_use := JStr ''none_missing_params''\<rparr>), [], w))
         | None \<Rightarrow>
             if truthy t \<and> t \<noteq> JStr ''none'' then
               (Inr (l\<lparr>tool_result := Some (unavailable_text env t),
                        tool_to_use := JStr ''none''\<rparr>), [], w)
             else (Inr l, [], w)))"

text \<open>The three prompts of lines 212, 223 and 230.\<close>

definition tool_result_prompt :: "string \<Rightarrow> string \<Rightarrow> string \<Rightarrow> string \<Rightarrow> string" where
  \<open>tool_result_prompt user_query tool_name params result =
     ''\<newline>'' @
     ''        User Query: "'' @
     user_query @
     ''"\<newline>'' @
     ''        You decided to use the tool: '' @
     [CHR 0x27] @
     tool_name @
     [CHR 0x27] @
     '' with parameters: '' @
     params @
     ''\<newline>'' @
     ''        The result from the tool is: "'' @
     result @
     ''"\<newline>'' @
     ''        \<newline>'' @
     ''        Based ONLY on the user query and the tool result, generate a concise and helpful natural language response for the user. \<newline>'' @
     ''        - If the tool executed successfully, incorporate its result smoothly into your answer.\<newline>'' @
     ''        - If the tool returned an error (e.g., city not found, missing parameters, API failure), explain the error clearly and politely to the user. Do not make up information if there was an error.\<newline>'' @
     ''        ''\<close>

definition missing_params_prompt :: "string \<Rightarrow> string \<Rightarrow> string \<Rightarrow> string" where
  \<open>missing_params_prompt user_query tool_name required =
     ''\<newline>'' @
     ''         User Query: "'' @
     user_query @
     ''"\<newline>'' @
     ''         You identified the intent requires the '' @
     [CHR 0x27] @
     tool_name @
     [CHR 0x27] @
     '' tool, but the necessary parameters ('' @
     required @
     '') were missing in the query.\<newline>'' @
     ''         Politely ask the user to provide the missing information. For example, if they asked for weather without a city, ask them for the city name.\<newline>'' @
     ''         ''\<close>

definition no_tool_prompt :: "string \<Rightarrow> string" where
  \<open>no_tool_prompt user_query =
     ''\<newline>'' @
     ''        User Query: "'' @
     user_query @
     ''"\<newline>'' @
     ''        No specific tool was needed or could be confidently identified to answer this query.\<newline>'' @
     ''        Respond directly and conversationally to the user based on their query. If it's general knowledge you might know, answer it. If not, state that you cannot perform that specific task or ask for clarification.\<newline>'' @
     ''        ''\<close>

text \<open>\<^verbatim>\<open>if tool_result:\<close> on \<^verbatim>\<open>None\<close> or a string.\<close>

definition result_truthy :: "string option \<Rightarrow> bool" where
  "result_truthy r = (case r of None \<Rightarrow> False | Some s \<Rightarrow> s \<noteq> [])"

text \<open>\<^verbatim>\<open>parsed_intent.get("tool_name", "N/A")\<close>, on a name that may be unbound.\<close>

definition intent_tool_name :: "locals \<Rightarrow> exn + json" where
  "intent_tool_name l =
     (case parsed_intent l of
        None \<Rightarrow> Inl UnboundLocalError
      | Some v \<Rightarrow> py_get v ''tool_name'' (JStr ''N/A''))"

text \<open>Lines 209 to 234.\<close>

definition final_response_prompt :: "'w env \<Rightarrow> string \<Rightarrow> locals \<Rightarrow> exn + string" where
  "final_response_prompt env user_query l =
     (if result_truthy (tool_result l) then
        (case intent_tool_name l of
           Inl e \<Rightarrow> Inl e
         | Inr name \<Rightarrow>
             Inr (tool_result_prompt user_query (py_str env name) (py_str env (parameters l))
                    (case tool_result l of None \<Rightarrow> [] | Some s \<Rightarrow> s)))
      else if tool_to_use l = JStr ''none_missing_params'' then
        (case intent_tool_name l of
           Inl e \<Rightarrow> Inl e
         | Inr name \<Rightarrow>
             (case required_params l of
                None \<Rightarrow> Inl UnboundLocalError
              | Some required \<Rightarrow>
                  Inr (missing_params_prompt user_query (py_str env name) (join '', '' required))))
      else Inr (no_tool_prompt user_query))"

definition FALLBACK_ANSWER :: string where
  "FALLBACK_ANSWER = ''Sorry, I encountered an error while trying to generate a response.''"

text \<open>Lines 236 to 248.\<close>

definition final_answer :: "exn + string option \<Rightarrow> string" where
  "final_answer r =
     (case r of
        Inl e \<Rightarrow> FALLBACK_ANSWER
      | Inr None \<Rightarrow> FALLBACK_ANSWER
      | Inr (Some text) \<Rightarrow> strip text)"

record debug_info =
  dbg_parsed_intent :: json
  tool_called :: json
  tool_parameters :: json
  dbg_tool_result :: string

record agent_result =
  response :: string
  debug_info :: debug_info

text \<open>Lines 250 to 258: the dict that \<^verbatim>\<open>run_agent\<close> returns.\<close>

definition make_result :: "string \<Rightarrow> locals \<Rightarrow> exn + agent_result" where
  "make_result answer l =
     (case (if result_truthy (tool_result l) then intent_tool_name l else Inr (JStr ''none'')) of
        Inl e \<Rightarrow> Inl e
      | Inr called \<Rightarrow>
          Inr \<lparr>response = answer,
               debug_info =
                 \<lparr>dbg_parsed_intent =
                    (case parsed_intent l of None \<Rightarrow> JStr ''Parsing Failed'' | Some v \<Rightarrow> v),
                  tool_called = called,
                  tool_parameters = parameters l,
                  dbg_tool_result =
                    (case tool_result l of
                       None \<Rightarrow> ''N/A''
                     | Some s \<Rightarrow> if s \<noteq> [] then s else ''N/A'')\<rparr>\<rparr>)"

text \<open>Lines 208 to 258: from the locals after the tool stage to the returned value.\<close>

definition respond :: "'w env \<Rightarrow> 'w \<Rightarrow> string \<Rightarrow> locals \<Rightarrow> (exn + agent_result) \<times> event list \<times> 'w" where
  "respond env w user_query l =
     (case final_response_prompt env user_query l of
        Inl e \<Rightarrow> (Inl e, [], w)
      | Inr prompt \<Rightarrow>
          (let (r, w') = generate_content env w prompt
           in (make_result (final_answer r) l, [GenerateContent prompt], w')))"

definition run_agent :: "'w env \<Rightarrow> 'w \<Rightarrow> string \<Rightarrow> (exn + agent_result) \<times> event list \<times> 'w" where
  "run_agent env w user_query =
     (let (l, evs1, w1) = parse_intent env w user_query;
          (x, evs2, w2) = execute_tool env w1 l
      in case x of
           Inl e \<Rightarrow> (Inl e, evs1 @ evs2, w2)
         | Inr l2 \<Rightarrow>
             (let (res, evs3, w3) = respond env w2 user_query l2
              in (res, evs1 @ evs2 @ evs3, w3)))"

section \<open>The endpoint\<close>

datatype HTTPException = HTTPException nat string

datatype AgentResponse = AgentResponse string debug_info

definition handle_agent_request ::
  "'w env \<Rightarrow> 'w \<Rightarrow> string \<Rightarrow> (HTTPException + AgentResponse) \<times> event list \<times> 'w" where
  "handle_agent_request env w query =
     (if query = [] \<or> strip query = [] then
        (Inl (HTTPException 400 ''Query cannot be empty.''), [], w)
      else
        (let (r, evs, w') = run_agent env w query
         in ((case r of
                Inl e \<Rightarrow>
                  Inl (HTTPException 500 ''Internal Server Error: An unexpected error occurred.'')
              | Inr result \<Rightarrow> Inr (AgentResponse (response result) (debug_info result))),
             evs, w')))"

section \<open>Observing a run\<close>

text \<open>The tool calls and the HTTP requests among the calls of a run.\<close>

fun is_tool_call :: "event \<Rightarrow> bool" where
  "is_tool_call (ToolCall f ps) = True"
| "is_tool_call e = False"

fun is_request :: "event \<Rightarrow> bool" where
  "is_request (RequestsGet url t) = True"
| "is_request e = False"

text \<open>
  A test double: the model answers every prompt with the same text and counts the calls
  in the world state, \<^verbatim>\<open>json.loads\<close> decodes that text to \<open>intent\<close>, and the weather
  service answers every request with \<open>http\<close>.
\<close>

definition stub :: "json \<Rightarrow> exn + http_response \<Rightarrow> nat env" where
  "stub intent http =
     \<lparr>generate_content = (\<lambda>w p. (Inr (Some '' ok ''), Suc w)),
      requests_get = (\<lambda>w url t. (http, Suc w)),
      json_loads = (\<lambda>s. Inr intent),
      py_repr = (\<lambda>v. ''<repr>''),
      quote = (\<lambda>s. s),
      WEATHER_API_KEY = ''key''\<rparr>"

abbreviation intent_london :: json where
  "intent_london \<equiv>
     JObj [(''tool_name'', JStr ''get_weather''),
           (''parameters'', JObj [(''location'', JStr ''London'')])]"

abbreviation intent_extra :: json where
  "intent_extra \<equiv>
     JObj [(''tool_name'', JStr ''get_weather''),
           (''parameters'', JObj [(''location'', JStr ''London''), (''units'', JStr ''metric'')])]"

abbreviation intent_empty_name :: json where
  "intent_empty_name \<equiv> JObj [(''tool_name'', JStr ''''), (''parameters'', JObj [])]"

abbreviation intent_unknown :: json where
  "intent_unknown \<equiv> JObj [(''tool_name'', JStr ''send_email''), (''parameters'', JObj [])]"

abbreviation intent_missing :: json where
  "intent_missing \<equiv> JObj [(''tool_name'', JStr ''get_weather''), (''parameters'', JObj [])]"

abbreviation intent_no_parameters :: json where
  "intent_no_parameters \<equiv> JObj [(''tool_name'', JStr ''get_weather'')]"

text \<open>A test double whose model call always raises.\<close>

abbreviation failing_llm :: "nat env" where
  "failing_llm \<equiv>
     (stub JNull (Inl Timeout))\<lparr>generate_content := (\<lambda>w p. (Inl OtherException, Suc w))\<rparr>"

abbreviation refusing_http :: "nat env" where
  "refusing_http \<equiv> stub JNull (Inl RequestException)"

abbreviation intent_no_tool_name :: json where
  "intent_no_tool_name \<equiv> JObj [(''parameters'', JObj [(''location'', JStr ''Paris'')])]"

abbreviation intent_null_parameters :: json where
  "intent_null_parameters \<equiv>
     JObj [(''tool_name'', JStr ''get_weather''), (''parameters'', JNull)]"

abbreviation body_london :: json where
  "body_london \<equiv>
     JObj [(''cod'', JInt 200), (''name'', JStr ''London''),
           (''main'', JObj [(''temp'', JStr ''21.5''), (''feels_like'', JStr ''20.9''),
                            (''humidity'', JStr ''60'')]),
           (''weather'', JArr [JObj [(''description'', JStr ''clear sky'')]])]"

abbreviation body_null_main :: json where
  "body_null_main \<equiv> JObj [(''cod'', JInt 200), (''name'', JStr ''London''), (''main'', JNull)]"

section \<open>Facts about the stages\<close>

lemma strip_eq_Nil: "strip s = [] \<longleftrightarrow> (\<forall>c \<in> set s. isspace c)"
proof
  assume "strip s = []"
  then have all: "\<forall>c \<in> set (dropWhile isspace s). isspace c"
    by (simp add: strip_def dropWhile_eq_Nil_conv)
  have "dropWhile isspace s = []"
  proof (rule ccontr)
    assume ne: "dropWhile isspace s \<noteq> []"
    then have "\<not> isspace (hd (dropWhile isspace s))" by (rule hd_dropWhile)
    moreover from ne have "hd (dropWhile isspace s) \<in> set (dropWhile isspace s)" by simp
    ultimately show False using all by blast
  qed
  then show "\<forall>c \<in> set s. isspace c" by (simp add: dropWhile_eq_Nil_conv)
next
  assume "\<forall>c \<in> set s. isspace c"
  then show "strip s = []" by (auto simp: strip_def dest: set_dropWhileD)
qed

lemma lookup_tool_Some: "lookup_tool t = Some f \<Longrightarrow> t = JStr ''get_weather'' \<and> f = Get_weather"
  by (cases t) (auto simp: lookup_tool_def TOOLS_def split: if_splits)

lemma parse_intent_shape:
  assumes "parse_intent env w q = (l, evs, w1)"
  shows "evs = [GenerateContent (intent_prompt env q)]"
    and "tool_result l = None"
    and "required_params l = None"
    and "(tool_to_use l = JStr ''none'' \<and> parameters l = JObj []) \<or>
         (\<exists>kvs. parsed_intent l = Some (JObj kvs) \<and>
            tool_to_use l = dict_get kvs ''tool_name'' JNull \<and>
            parameters l = dict_get kvs ''parameters'' (JObj []))"
  using assms
  by (auto simp: parse_intent_def init_locals_def Let_def
      split: prod.splits sum.splits option.splits json.splits)

lemma execute_tool_missing:
  assumes "lookup_tool (tool_to_use l) = Some f"
    and "all_in (co_params f) (parameters l) = Inr False"
  shows "execute_tool env w l =
           (Inr (l\<lparr>required_params := Some (co_params f),
                   tool_result := Some (missing_text env (tool_to_use l) (co_params f)),
                   tool_to_use := JStr ''none_missing_params''\<rparr>), [], w)"
proof -
  from lookup_tool_Some [OF assms(1)]
  have t: "tool_to_use l = JStr ''get_weather''" and f: "f = Get_weather" by simp_all
  from assms show ?thesis by (simp add: execute_tool_def Let_def t f cong: sum.case_cong)
qed

lemma execute_tool_call:
  assumes "lookup_tool (tool_to_use l) = Some f"
    and "all_in (co_params f) (parameters l) = Inr True"
    and "call_tool env w f (parameters l) = (r, evs, w')"
  shows "execute_tool env w l =
           (Inr (l\<lparr>required_params := Some (co_params f),
                   tool_result := Some (case r of Inl e \<Rightarrow> failed_text env (tool_to_use l)
                                        | Inr s \<Rightarrow> s)\<rparr>),
            ToolCall f (parameters l) # evs, w')"
proof -
  from lookup_tool_Some [OF assms(1)]
  have t: "tool_to_use l = JStr ''get_weather''" and f: "f = Get_weather" by simp_all
  from assms show ?thesis by (simp add: execute_tool_def Let_def t f cong: sum.case_cong)
qed

lemma execute_tool_raises:
  assumes "lookup_tool (tool_to_use l) = Some f"
    and "all_in (co_params f) (parameters l) = Inl e"
  shows "execute_tool env w l = (Inl e, [], w)"
proof -
  from lookup_tool_Some [OF assms(1)]
  have t: "tool_to_use l = JStr ''get_weather''" and f: "f = Get_weather" by simp_all
  from assms show ?thesis by (simp add: execute_tool_def Let_def t f cong: sum.case_cong)
qed

lemma execute_tool_unhashable:
  assumes "truthy (tool_to_use l)" and "\<not> hashable (tool_to_use l)"
  shows "execute_tool env w l = (Inl TypeError, [], w)"
  using assms by (simp add: execute_tool_def Let_def)

lemma execute_tool_unknown:
  assumes "truthy (tool_to_use l)" and "hashable (tool_to_use l)"
    and "lookup_tool (tool_to_use l) = None" and "tool_to_use l \<noteq> JStr ''none''"
  shows "execute_tool env w l =
           (Inr (l\<lparr>tool_result := Some (unavailable_text env (tool_to_use l)),
                   tool_to_use := JStr ''none''\<rparr>), [], w)"
  using assms by (simp add: execute_tool_def Let_def)

lemma execute_tool_no_tool:
  assumes "\<not> truthy (tool_to_use l) \<or> tool_to_use l = JStr ''none''"
  shows "execute_tool env w l = (Inr l, [], w)"
  using assms by (auto simp: execute_tool_def Let_def lookup_tool_def TOOLS_def)

lemma all_in_location:
  "all_in [''location''] ps =
     (case ps of
        JObj kvs \<Rightarrow> Inr (''location'' \<in> fst ` set kvs)
      | JArr xs \<Rightarrow> Inr (JStr ''location'' \<in> set xs)
      | JStr s \<Rightarrow> Inr (sublist ''location'' s)
      | _ \<Rightarrow> Inl TypeError)"
  by (cases ps) auto

lemma all_in_dict:
  "all_in ps (JObj kvs) = Inr (set ps \<subseteq> fst ` set kvs)"
  by (induction ps) auto

lemma respond_no_tool:
  assumes "tool_result l = None" and "tool_to_use l \<noteq> JStr ''none_missing_params''"
  shows "respond env w q l =
           (Inr \<lparr>response = final_answer (fst (generate_content env w (no_tool_prompt q))),
                 debug_info =
                   \<lparr>dbg_parsed_intent =
                      (case parsed_intent l of None \<Rightarrow> JStr ''Parsing Failed'' | Some v \<Rightarrow> v),
                    tool_called = JStr ''none'', tool_parameters = parameters l,
                    dbg_tool_result = ''N/A''\<rparr>\<rparr>,
            [GenerateContent (no_tool_prompt q)],
            snd (generate_content env w (no_tool_prompt q)))"
  using assms
  by (simp add: respond_def final_response_prompt_def result_truthy_def make_result_def
      split: prod.splits)

lemma respond_tool_result:
  assumes "tool_result l = Some s" and "s \<noteq> []"
    and "parsed_intent l = Some (JObj kvs)"
  shows "respond env w q l =
           (let name = dict_get kvs ''tool_name'' (JStr ''N/A'');
                prompt = tool_result_prompt q (py_str env name) (py_str env (parameters l)) s
            in (Inr \<lparr>response = final_answer (fst (generate_content env w prompt)),
                     debug_info =
                       \<lparr>dbg_parsed_intent = JObj kvs, tool_called = name,
                        tool_parameters = parameters l, dbg_tool_result = s\<rparr>\<rparr>,
                [GenerateContent prompt], snd (generate_content env w prompt)))"
  using assms
  by (simp add: respond_def final_response_prompt_def result_truthy_def make_result_def
      intent_tool_name_def Let_def split: prod.splits)

lemma run_agent_unfold:
  assumes "parse_intent env w q = (l, evs1, w1)"
    and "execute_tool env w1 l = (Inr l2, evs2, w2)"
    and "respond env w2 q l2 = (res, evs3, w3)"
  shows "run_agent env w q = (res, evs1 @ evs2 @ evs3, w3)"
  using assms by (simp add: run_agent_def)

lemma run_agent_raise:
  assumes "parse_intent env w q = (l, evs1, w1)"
    and "execute_tool env w1 l = (Inl e, evs2, w2)"
  shows "run_agent env w q = (Inl e, evs1 @ evs2, w2)"
  using assms by (simp add: run_agent_def)


section \<open>The endpoint rejects a blank query\<close>

text \<open>
  C8. A request whose query is empty or made of whitespace only is answered with the
  HTTP error 400, and the run makes no call at all: no model call, no tool call.
\<close>

theorem blank_query_rejected:
  "list_all isspace query \<Longrightarrow>
   handle_agent_request env w query = (Inl (HTTPException 400 ''Query cannot be empty.''), [], w)"
  by (simp add: handle_agent_request_def strip_eq_Nil list_all_iff)

theorem blank_query_rejected_witness:
  "list_all isspace '' \<newline> '' \<and>
   handle_agent_request (stub JNull (Inl Timeout)) 0 '' \<newline> '' =
     (Inl (HTTPException 400 ''Query cannot be empty.''), [], 0)"
  using blank_query_rejected [of "'' \<newline> ''" "stub JNull (Inl Timeout)" 0]
  by (simp add: isspace_def)

section \<open>The weather tool's timeout\<close>

text \<open>
  C7. For a location that is not blank, \<^verbatim>\<open>get_weather\<close> makes exactly one HTTP request,
  with a timeout of 10, and leaves the world as that request left it. When the request
  times out the tool returns the timeout text; when it fails with another exception of
  \<^verbatim>\<open>requests\<close> the tool returns the connection-failure text; the two texts differ.
\<close>

theorem weather_request_timeout:
  "strip loc \<noteq> [] \<Longrightarrow>
   snd (get_weather env w (JStr loc)) =
     ([RequestsGet (complete_url env loc) 10],
      snd (requests_get env w (complete_url env loc) 10)) \<and>
   (fst (requests_get env w (complete_url env loc) 10) = Inl Timeout \<longrightarrow>
      fst (get_weather env w (JStr loc)) = Inr ERR_TIMEOUT) \<and>
   (fst (requests_get env w (complete_url env loc) 10) = Inl RequestException \<longrightarrow>
      fst (get_weather env w (JStr loc)) = Inr ERR_CONNECT) \<and>
   ERR_TIMEOUT \<noteq> ERR_CONNECT"
proof -
  assume a: "strip loc \<noteq> []"
  then have ne: "loc \<noteq> []" by (auto simp: strip_def)
  have "snd (get_weather env w (JStr loc)) =
     ([RequestsGet (complete_url env loc) 10],
      snd (requests_get env w (complete_url env loc) 10))"
    using a ne by (simp add: get_weather_def Let_def split_beta)
  moreover have "fst (requests_get env w (complete_url env loc) 10) = Inl Timeout \<longrightarrow>
      fst (get_weather env w (JStr loc)) = Inr ERR_TIMEOUT"
    using a ne
    by (simp add: get_weather_def Let_def split_beta read_response_def weather_except_def)
  moreover have "fst (requests_get env w (complete_url env loc) 10) = Inl RequestException \<longrightarrow>
      fst (get_weather env w (JStr loc)) = Inr ERR_CONNECT"
    using a ne
    by (simp add: get_weather_def Let_def split_beta read_response_def weather_except_def
        isinstance_RequestException_def)
  moreover have "ERR_TIMEOUT \<noteq> ERR_CONNECT"
    by (simp add: ERR_TIMEOUT_def ERR_CONNECT_def)
  ultimately show ?thesis by (intro conjI)
qed

theorem weather_request_timeout_witness:
  "strip ''London'' \<noteq> [] \<and>
   fst (requests_get (stub JNull (Inl Timeout)) 0
          (complete_url (stub JNull (Inl Timeout)) ''London'') 10) = Inl Timeout \<and>
   get_weather (stub JNull (Inl Timeout)) 0 (JStr ''London'') =
     (Inr ERR_TIMEOUT,
      [RequestsGet ''http://api.openweathermap.org/data/2.5/weather?appid=key&q=London&units=metric'' 10],
      1) \<and>
   fst (requests_get refusing_http 0 (complete_url refusing_http ''London'') 10) =
     Inl RequestException \<and>
   get_weather refusing_http 0 (JStr ''London'') =
     (Inr ERR_CONNECT,
      [RequestsGet ''http://api.openweathermap.org/data/2.5/weather?appid=key&q=London&units=metric'' 10],
      1)"
  using weather_request_timeout [of "''London''" "stub JNull (Inl Timeout)" 0]
    weather_request_timeout [of "''London''" refusing_http 0]
  by (simp add: strip_def isspace_def stub_def complete_url_def prod_eq_iff)

lemma get_weather_events:
  "filter is_tool_call (fst (snd (get_weather env w loc))) = []"
  by (cases loc) (simp_all add: get_weather_def Let_def split_beta)

lemma call_tool_events:
  "filter is_tool_call (fst (snd (call_tool env w f ps))) = []"
  by (cases ps; cases f) (simp_all add: call_tool_def get_weather_events split: option.splits)

lemma respond_events:
  "filter is_tool_call (fst (snd (respond env w q l))) = []"
  by (cases "final_response_prompt env q l") (simp_all add: respond_def split_beta)


lemma call_tool_exact:
  assumes "fst ` set kvs = set (co_params f)"
  shows "call_tool env w f (JObj kvs) = get_weather env w (dict_get kvs ''location'' JNull)"
proof -
  have f: "f = Get_weather" by (cases f) simp
  from assms f have "''location'' \<in> fst ` set kvs" by simp
  then have "map_of kvs ''location'' \<noteq> None" by (simp add: map_of_eq_None_iff)
  then obtain v where "map_of kvs ''location'' = Some v" by blast
  with assms f show ?thesis by (simp add: call_tool_def dict_get_def)
qed

lemma call_tool_extra:
  assumes "\<not> fst ` set kvs \<subseteq> set (co_params f)"
  shows "call_tool env w f (JObj kvs) = (Inl TypeError, [], w)"
proof -
  have f: "f = Get_weather" by (cases f) simp
  with assms show ?thesis by (simp add: call_tool_def split: option.splits)
qed


section \<open>An extra parameter makes the call fail\<close>

lemma failed_text_name:
  "failed_text env (JStr ''get_weather'') = ''Error: Failed to execute the tool 'get_weather'.''"
  by (simp add: failed_text_def py_str_def)

lemma failed_not_missing: "failed_text env t \<noteq> missing_text env t req"
  by (simp add: failed_text_def missing_text_def)

lemma dict_get_default:
  "dict_get kvs k JNull = t \<Longrightarrow> t \<noteq> JNull \<Longrightarrow> dict_get kvs k d = t"
  by (auto simp: dict_get_def split: option.splits)

lemma parsed_object:
  assumes "parse_intent env w q = (l, evs, w1)" and "tool_to_use l \<noteq> JStr ''none''"
  shows "\<exists>kvs. parsed_intent l = Some (JObj kvs) \<and>
           tool_to_use l = dict_get kvs ''tool_name'' JNull \<and>
           parameters l = dict_get kvs ''parameters'' (JObj [])"
  using parse_intent_shape(4) [OF assms(1)] assms(2) by blast

text \<open>
  C10. When the query is classified to a registered tool and the parsed parameters have
  every required name and also a key that is not in the signature, the validation of
  line 188 passes, the call raises \<^verbatim>\<open>TypeError\<close> before \<^verbatim>\<open>get_weather\<close> runs (no HTTP
  request is made), and the final prompt is the tool-result prompt carrying the text
  \<^verbatim>\<open>Error: Failed to execute the tool 'get_weather'.\<close>, which is not the text written when
  parameters are missing.
\<close>

theorem extra_parameter_fails:
  assumes "parse_intent env w q = (l, evs1, w1)"
    and "lookup_tool (tool_to_use l) = Some f"
    and "parameters l = JObj kvs"
    and "set (co_params f) \<subseteq> fst ` set kvs"
    and "\<not> fst ` set kvs \<subseteq> set (co_params f)"
  shows "all_in (co_params f) (parameters l) = Inr True \<and>
         call_tool env w1 f (parameters l) = (Inl TypeError, [], w1) \<and>
         run_agent env w q =
           (let msg = ''Error: Failed to execute the tool 'get_weather'.'';
                prompt = tool_result_prompt q ''get_weather'' (py_repr env (JObj kvs)) msg
            in (Inr \<lparr>response = final_answer (fst (generate_content env w1 prompt)),
                     debug_info =
                       \<lparr>dbg_parsed_intent =
                          (case parsed_intent l of None \<Rightarrow> JStr ''Parsing Failed'' | Some v \<Rightarrow> v),
                        tool_called = JStr ''get_weather'',
                        tool_parameters = JObj kvs, dbg_tool_result = msg\<rparr>\<rparr>,
                [GenerateContent (intent_prompt env q), ToolCall f (JObj kvs),
                 GenerateContent prompt],
                snd (generate_content env w1 prompt))) \<and>
         failed_text env (tool_to_use l) \<noteq> missing_text env (tool_to_use l) (co_params f)"
proof -
  from lookup_tool_Some [OF assms(2)]
  have t: "tool_to_use l = JStr ''get_weather''" and f: "f = Get_weather" by simp_all
  from assms(3,4) have ok: "all_in (co_params f) (parameters l) = Inr True"
    by (simp add: all_in_dict)
  from assms(3,5) have c: "call_tool env w1 f (parameters l) = (Inl TypeError, [], w1)"
    by (simp add: call_tool_extra)
  define msg where "msg = ''Error: Failed to execute the tool 'get_weather'.''"
  define l2 where "l2 = l\<lparr>required_params := Some (co_params f), tool_result := Some msg\<rparr>"
  from execute_tool_call [OF assms(2) ok c]
  have ex: "execute_tool env w1 l = (Inr l2, [ToolCall f (parameters l)], w1)"
    by (simp add: l2_def msg_def t failed_text_name)
  have "tool_to_use l \<noteq> JStr ''none''" by (simp add: t)
  from parsed_object [OF assms(1) this] obtain obj where
    p: "parsed_intent l = Some (JObj obj)" and n: "tool_to_use l = dict_get obj ''tool_name'' JNull"
    by (elim exE conjE)
  from n t have "dict_get obj ''tool_name'' JNull = JStr ''get_weather''" by simp
  then have name: "dict_get obj ''tool_name'' (JStr ''N/A'') = JStr ''get_weather''"
    by (rule dict_get_default) simp
  have l2f: "tool_result l2 = Some msg" "parsed_intent l2 = Some (JObj obj)"
    "parameters l2 = JObj kvs"
    by (simp_all add: l2_def p assms(3))
  have ne: "msg \<noteq> []" by (simp add: msg_def)
  note rs = respond_tool_result [OF l2f(1) ne l2f(2), of env w1 q]
  have e1: "evs1 = [GenerateContent (intent_prompt env q)]"
    by (rule parse_intent_shape(1) [OF assms(1)])
  have "run_agent env w q =
      (fst (respond env w1 q l2), evs1 @ [ToolCall f (parameters l)] @ fst (snd (respond env w1 q l2)),
       snd (snd (respond env w1 q l2)))"
    by (rule run_agent_unfold [OF assms(1) ex]) simp
  then have run: "run_agent env w q =
           (let prompt = tool_result_prompt q ''get_weather'' (py_repr env (JObj kvs)) msg
            in (Inr \<lparr>response = final_answer (fst (generate_content env w1 prompt)),
                     debug_info =
                       \<lparr>dbg_parsed_intent =
                          (case parsed_intent l of None \<Rightarrow> JStr ''Parsing Failed'' | Some v \<Rightarrow> v),
                        tool_called = JStr ''get_weather'',
                        tool_parameters = JObj kvs, dbg_tool_result = msg\<rparr>\<rparr>,
                [GenerateContent (intent_prompt env q), ToolCall f (JObj kvs),
                 GenerateContent prompt],
                snd (generate_content env w1 prompt)))"
    by (simp add: rs name l2f(3) e1 assms(3) p py_str_def Let_def)
  show ?thesis
    unfolding Let_def
    using ok c run failed_not_missing [of env "tool_to_use l" "co_params f"]
    by (simp add: msg_def Let_def)
qed


theorem extra_parameter_fails_witness:
  "parse_intent (stub intent_extra (Inl Timeout)) 0 ''weather in London?'' =
     (\<lparr>parsed_intent = Some intent_extra, tool_to_use = JStr ''get_weather'',
       parameters = JObj [(''location'', JStr ''London''), (''units'', JStr ''metric'')],
       tool_result = None, required_params = None\<rparr>,
      [GenerateContent (intent_prompt (stub intent_extra (Inl Timeout)) ''weather in London?'')],
      1) \<and>
   lookup_tool (JStr ''get_weather'') = Some Get_weather \<and>
   set (co_params Get_weather) \<subseteq>
     fst ` set [(''location'', JStr ''London''), (''units'', JStr ''metric'')] \<and>
   \<not> fst ` set [(''location'', JStr ''London''), (''units'', JStr ''metric'')] \<subseteq>
     set (co_params Get_weather) \<and>
   run_agent (stub intent_extra (Inl Timeout)) 0 ''weather in London?'' =
     (Inr \<lparr>response = ''ok'',
           debug_info =
             \<lparr>dbg_parsed_intent = intent_extra, tool_called = JStr ''get_weather'',
              tool_parameters =
                JObj [(''location'', JStr ''London''), (''units'', JStr ''metric'')],
              dbg_tool_result = ''Error: Failed to execute the tool 'get_weather'.''\<rparr>\<rparr>,
      [GenerateContent (intent_prompt (stub intent_extra (Inl Timeout)) ''weather in London?''),
       ToolCall Get_weather (JObj [(''location'', JStr ''London''), (''units'', JStr ''metric'')]),
       GenerateContent (tool_result_prompt ''weather in London?'' ''get_weather'' ''<repr>''
          ''Error: Failed to execute the tool 'get_weather'.'')],
      2)"
  using extra_parameter_fails
    [of "stub intent_extra (Inl Timeout)" 0 "''weather in London?''"
        "\<lparr>parsed_intent = Some intent_extra, tool_to_use = JStr ''get_weather'',
          parameters = JObj [(''location'', JStr ''London''), (''units'', JStr ''metric'')],
          tool_result = None, required_params = None\<rparr>"
        "[GenerateContent (intent_prompt (stub intent_extra (Inl Timeout)) ''weather in London?'')]"
        1 Get_weather "[(''location'', JStr ''London''), (''units'', JStr ''metric'')]"]
  by (simp add: parse_intent_def stub_def init_locals_def dict_get_def lookup_tool_def TOOLS_def
      final_answer_def strip_def isspace_def Let_def)

section \<open>An unknown tool\<close>

lemma unavailable_text_nonempty: "unavailable_text env t \<noteq> []"
  by (simp add: unavailable_text_def)

text \<open>
  C5, as the code has it. A tool name that is true (for a string: not empty), hashable,
  not in the registry and not \<^verbatim>\<open>"none"\<close> makes the run call no tool; the text that the
  tool is not available becomes the tool result, and the final prompt is the tool-result
  prompt carrying it.
\<close>

theorem unknown_tool_unavailable:
  assumes "parse_intent env w q = (l, evs1, w1)"
    and "truthy (tool_to_use l)" and "hashable (tool_to_use l)"
    and "lookup_tool (tool_to_use l) = None" and "tool_to_use l \<noteq> JStr ''none''"
  shows "run_agent env w q =
     (let t = tool_to_use l; msg = unavailable_text env t;
          prompt = tool_result_prompt q (py_str env t) (py_str env (parameters l)) msg
      in (Inr \<lparr>response = final_answer (fst (generate_content env w1 prompt)),
               debug_info =
                 \<lparr>dbg_parsed_intent =
                    (case parsed_intent l of None \<Rightarrow> JStr ''Parsing Failed'' | Some v \<Rightarrow> v),
                  tool_called = t, tool_parameters = parameters l, dbg_tool_result = msg\<rparr>\<rparr>,
          [GenerateContent (intent_prompt env q), GenerateContent prompt],
          snd (generate_content env w1 prompt)))"
proof -
  define msg where "msg = unavailable_text env (tool_to_use l)"
  define l2 where "l2 = l\<lparr>tool_result := Some msg, tool_to_use := JStr ''none''\<rparr>"
  from execute_tool_unknown [OF assms(2-5)]
  have ex: "execute_tool env w1 l = (Inr l2, [], w1)" by (simp add: l2_def msg_def)
  from parsed_object [OF assms(1,5)] obtain obj where
    p: "parsed_intent l = Some (JObj obj)" and n: "tool_to_use l = dict_get obj ''tool_name'' JNull"
    by (elim exE conjE)
  from assms(2) have "tool_to_use l \<noteq> JNull" by auto
  moreover from n have "dict_get obj ''tool_name'' JNull = tool_to_use l" by simp
  ultimately have name: "dict_get obj ''tool_name'' (JStr ''N/A'') = tool_to_use l"
    by (rule dict_get_default [rotated])
  have l2f: "tool_result l2 = Some msg" "parsed_intent l2 = Some (JObj obj)"
    "parameters l2 = parameters l"
    by (simp_all add: l2_def p)
  have ne: "msg \<noteq> []" by (simp add: msg_def unavailable_text_nonempty)
  note rs = respond_tool_result [OF l2f(1) ne l2f(2), of env w1 q]
  have e1: "evs1 = [GenerateContent (intent_prompt env q)]"
    by (rule parse_intent_shape(1) [OF assms(1)])
  have "run_agent env w q =
      (fst (respond env w1 q l2), evs1 @ [] @ fst (snd (respond env w1 q l2)),
       snd (snd (respond env w1 q l2)))"
    by (rule run_agent_unfold [OF assms(1) ex]) simp
  then show ?thesis
    by (simp add: rs name l2f(3) e1 p Let_def msg_def)
qed

theorem unknown_tool_unavailable_witness:
  "parse_intent (stub intent_unknown (Inl Timeout)) 0 ''send an email'' =
     (\<lparr>parsed_intent = Some intent_unknown, tool_to_use = JStr ''send_email'',
       parameters = JObj [], tool_result = None, required_params = None\<rparr>,
      [GenerateContent (intent_prompt (stub intent_unknown (Inl Timeout)) ''send an email'')],
      1) \<and>
   truthy (JStr ''send_email'') \<and> hashable (JStr ''send_email'') \<and>
   lookup_tool (JStr ''send_email'') = None \<and> JStr ''send_email'' \<noteq> JStr ''none'' \<and>
   run_agent (stub intent_unknown (Inl Timeout)) 0 ''send an email'' =
     (Inr \<lparr>response = ''ok'',
           debug_info =
             \<lparr>dbg_parsed_intent = intent_unknown, tool_called = JStr ''send_email'',
              tool_parameters = JObj [],
              dbg_tool_result =
                ''Error: I cannot perform that action as the tool 'send_email' is not available.''\<rparr>\<rparr>,
      [GenerateContent (intent_prompt (stub intent_unknown (Inl Timeout)) ''send an email''),
       GenerateContent (tool_result_prompt ''send an email'' ''send_email'' ''<repr>''
         ''Error: I cannot perform that action as the tool 'send_email' is not available.'')],
      2)"
  using unknown_tool_unavailable
    [of "stub intent_unknown (Inl Timeout)" 0 "''send an email''"
        "\<lparr>parsed_intent = Some intent_unknown, tool_to_use = JStr ''send_email'',
          parameters = JObj [], tool_result = None, required_params = None\<rparr>"
        "[GenerateContent (intent_prompt (stub intent_unknown (Inl Timeout)) ''send an email'')]"
        1]
  by (simp add: parse_intent_def stub_def init_locals_def dict_get_def lookup_tool_def TOOLS_def
      final_answer_def strip_def isspace_def Let_def unavailable_text_def py_str_def)

text \<open>
  The claim as stated fails for the empty tool name: it is not \<^verbatim>\<open>"none"\<close> and not in the
  registry, yet line 203 tests its truth first, so no tool result is written and the
  no-tool prompt is used.
\<close>

theorem empty_tool_name_counterexample:
  "lookup_tool (JStr '''') = None \<and> JStr '''' \<noteq> JStr ''none'' \<and>
   run_agent (stub intent_empty_name (Inl Timeout)) 0 ''do it'' =
     (Inr \<lparr>response = ''ok'',
           debug_info =
             \<lparr>dbg_parsed_intent = intent_empty_name, tool_called = JStr ''none'',
              tool_parameters = JObj [], dbg_tool_result = ''N/A''\<rparr>\<rparr>,
      [GenerateContent (intent_prompt (stub intent_empty_name (Inl Timeout)) ''do it''),
       GenerateContent (no_tool_prompt ''do it'')],
      2)"
  by (simp add: run_agent_def parse_intent_def execute_tool_def respond_def
      final_response_prompt_def make_result_def result_truthy_def
      stub_def init_locals_def dict_get_def lookup_tool_def TOOLS_def
      final_answer_def strip_def isspace_def Let_def)

section \<open>Missing parameters\<close>

lemma join_sublist: "p \<in> set ps \<Longrightarrow> sublist p (join sep ps)"
proof (induction sep ps rule: join.induct)
  case (1 sep)
  then show ?case by simp
next
  case (2 sep x)
  then show ?case by simp
next
  case (3 sep x y ys)
  show ?case
  proof (cases "p = x")
    case True
    then show ?thesis by simp
  next
    case False
    with 3 have "sublist p (join sep (y # ys))" by simp
    then obtain a b where "join sep (y # ys) = a @ p @ b" by (auto simp: sublist_def)
    then have "join sep (x # y # ys) = (x @ sep @ a) @ p @ b" by simp
    then show ?thesis unfolding sublist_def by blast
  qed
qed

lemma missing_text_names:
  assumes "p \<in> set req"
  shows "sublist p (missing_text env t req)"
proof -
  from join_sublist [OF assms, of "'', ''"] obtain a b where
    "join '', '' req = a @ p @ b" by (auto simp: sublist_def)
  then have "missing_text env t req =
      (''Error: I need more information to use the '' @ [CHR 0x27] @ py_str env t @ [CHR 0x27] @
       '' tool. Please provide: '' @ a) @ p @ (b @ ''.'')"
    by (simp add: missing_text_def)
  then show ?thesis unfolding sublist_def by blast
qed

lemma missing_text_nonempty: "missing_text env t req \<noteq> []"
  by (simp add: missing_text_def)

text \<open>
  C1, as the code has it. When the query is classified to a registered tool and a
  required parameter is not a key of the parsed parameters, the run calls no tool and
  makes no HTTP request; it writes the tool result
  \<^verbatim>\<open>Error: I need more information to use the '<tool>' tool. Please provide: <names>.\<close>,
  which names every required parameter, and returns after one more model call.
\<close>

theorem missing_parameters_text:
  assumes "parse_intent env w q = (l, evs1, w1)"
    and "lookup_tool (tool_to_use l) = Some f"
    and "parameters l = JObj kvs"
    and "\<not> set (co_params f) \<subseteq> fst ` set kvs"
  shows "\<exists>prompt.
           run_agent env w q =
             (Inr \<lparr>response = final_answer (fst (generate_content env w1 prompt)),
                   debug_info =
                     \<lparr>dbg_parsed_intent =
                        (case parsed_intent l of None \<Rightarrow> JStr ''Parsing Failed'' | Some v \<Rightarrow> v),
                      tool_called = tool_to_use l, tool_parameters = JObj kvs,
                      dbg_tool_result = missing_text env (tool_to_use l) (co_params f)\<rparr>\<rparr>,
              [GenerateContent (intent_prompt env q), GenerateContent prompt],
              snd (generate_content env w1 prompt)) \<and>
           list_all (\<lambda>p. sublist p (missing_text env (tool_to_use l) (co_params f)))
             (co_params f)"
proof -
  from lookup_tool_Some [OF assms(2)]
  have t: "tool_to_use l = JStr ''get_weather''" by simp
  define msg where "msg = missing_text env (tool_to_use l) (co_params f)"
  define l2 where "l2 = l\<lparr>required_params := Some (co_params f), tool_result := Some msg,
                      tool_to_use := JStr ''none_missing_params''\<rparr>"
  from assms(3,4) have no: "all_in (co_params f) (parameters l) = Inr False"
    by (simp add: all_in_dict)
  from execute_tool_missing [OF assms(2) no]
  have ex: "execute_tool env w1 l = (Inr l2, [], w1)" by (simp add: l2_def msg_def)
  have "tool_to_use l \<noteq> JStr ''none''" by (simp add: t)
  from parsed_object [OF assms(1) this] obtain obj where
    p: "parsed_intent l = Some (JObj obj)" and n: "tool_to_use l = dict_get obj ''tool_name'' JNull"
    by (elim exE conjE)
  have "tool_to_use l \<noteq> JNull" by (simp add: t)
  moreover from n have "dict_get obj ''tool_name'' JNull = tool_to_use l" by simp
  ultimately have name: "dict_get obj ''tool_name'' (JStr ''N/A'') = tool_to_use l"
    by (rule dict_get_default [rotated])
  have l2f: "tool_result l2 = Some msg" "parsed_intent l2 = Some (JObj obj)"
    "parameters l2 = JObj kvs"
    by (simp_all add: l2_def p assms(3))
  have ne: "msg \<noteq> []" by (simp add: msg_def missing_text_nonempty)
  note rs = respond_tool_result [OF l2f(1) ne l2f(2), of env w1 q]
  have e1: "evs1 = [GenerateContent (intent_prompt env q)]"
    by (rule parse_intent_shape(1) [OF assms(1)])
  define prompt where
    "prompt = tool_result_prompt q (py_str env (tool_to_use l)) (py_str env (JObj kvs)) msg"
  have "run_agent env w q =
      (fst (respond env w1 q l2), evs1 @ [] @ fst (snd (respond env w1 q l2)),
       snd (snd (respond env w1 q l2)))"
    by (rule run_agent_unfold [OF assms(1) ex]) simp
  then have run: "run_agent env w q =
             (Inr \<lparr>response = final_answer (fst (generate_content env w1 prompt)),
                   debug_info =
                     \<lparr>dbg_parsed_intent =
                        (case parsed_intent l of None \<Rightarrow> JStr ''Parsing Failed'' | Some v \<Rightarrow> v),
                      tool_called = tool_to_use l, tool_parameters = JObj kvs,
                      dbg_tool_result = msg\<rparr>\<rparr>,
              [GenerateContent (intent_prompt env q), GenerateContent prompt],
              snd (generate_content env w1 prompt))"
    by (simp add: rs name l2f(3) e1 p Let_def prompt_def)
  have "list_all (\<lambda>p. sublist p msg) (co_params f)"
    by (simp add: list_all_iff msg_def missing_text_names)
  with run show ?thesis unfolding msg_def by blast
qed


theorem missing_parameters_text_witness:
  "parse_intent (stub intent_missing (Inl Timeout)) 0 ''How is the weather?'' =
     (\<lparr>parsed_intent = Some intent_missing, tool_to_use = JStr ''get_weather'',
       parameters = JObj [], tool_result = None, required_params = None\<rparr>,
      [GenerateContent (intent_prompt (stub intent_missing (Inl Timeout)) ''How is the weather?'')],
      1) \<and>
   lookup_tool (JStr ''get_weather'') = Some Get_weather \<and>
   \<not> set (co_params Get_weather) \<subseteq> fst ` set [] \<and>
   fst (run_agent (stub intent_missing (Inl Timeout)) 0 ''How is the weather?'') =
     Inr \<lparr>response = ''ok'',
          debug_info =
            \<lparr>dbg_parsed_intent = intent_missing, tool_called = JStr ''get_weather'',
             tool_parameters = JObj [],
             dbg_tool_result =
               ''Error: I need more information to use the 'get_weather' tool. Please provide: location.''\<rparr>\<rparr> \<and>
   filter is_tool_call
     (fst (snd (run_agent (stub intent_missing (Inl Timeout)) 0 ''How is the weather?''))) = [] \<and>
   sublist ''location''
     (missing_text (stub intent_missing (Inl Timeout)) (JStr ''get_weather'')
        (co_params Get_weather))"
  using missing_parameters_text
    [of "stub intent_missing (Inl Timeout)" 0 "''How is the weather?''"
        "\<lparr>parsed_intent = Some intent_missing, tool_to_use = JStr ''get_weather'',
          parameters = JObj [], tool_result = None, required_params = None\<rparr>"
        "[GenerateContent (intent_prompt (stub intent_missing (Inl Timeout)) ''How is the weather?'')]"
        1 Get_weather "[]"]
  by (clarsimp simp: parse_intent_def stub_def init_locals_def dict_get_def lookup_tool_def
      TOOLS_def final_answer_def strip_def isspace_def missing_text_def py_str_def)

text \<open>
  The claim as stated fails: a tool result is written (line 199), so the test of
  line 210 succeeds and the final prompt is the tool-result prompt; the prompt of
  line 223 is not used.
\<close>

theorem missing_parameters_counterexample:
  "run_agent (stub intent_missing (Inl Timeout)) 0 ''How is the weather?'' =
     (Inr \<lparr>response = ''ok'',
           debug_info =
             \<lparr>dbg_parsed_intent = intent_missing, tool_called = JStr ''get_weather'',
              tool_parameters = JObj [],
              dbg_tool_result =
                ''Error: I need more information to use the 'get_weather' tool. Please provide: location.''\<rparr>\<rparr>,
      [GenerateContent (intent_prompt (stub intent_missing (Inl Timeout)) ''How is the weather?''),
       GenerateContent (tool_result_prompt ''How is the weather?'' ''get_weather'' ''<repr>''
         ''Error: I need more information to use the 'get_weather' tool. Please provide: location.'')],
      2) \<and>
   tool_result_prompt ''How is the weather?'' ''get_weather'' ''<repr>''
      ''Error: I need more information to use the 'get_weather' tool. Please provide: location.'' \<noteq>
   missing_params_prompt ''How is the weather?'' ''get_weather'' ''location''"
proof -
  have "tool_result_prompt ''How is the weather?'' ''get_weather'' ''<repr>''
      ''Error: I need more information to use the 'get_weather' tool. Please provide: location.'' \<noteq>
   missing_params_prompt ''How is the weather?'' ''get_weather'' ''location''"
    by (simp add: tool_result_prompt_def missing_params_prompt_def)
  moreover have "run_agent (stub intent_missing (Inl Timeout)) 0 ''How is the weather?'' =
     (Inr \<lparr>response = ''ok'',
           debug_info =
             \<lparr>dbg_parsed_intent = intent_missing, tool_called = JStr ''get_weather'',
              tool_parameters = JObj [],
              dbg_tool_result =
                ''Error: I need more information to use the 'get_weather' tool. Please provide: location.''\<rparr>\<rparr>,
      [GenerateContent (intent_prompt (stub intent_missing (Inl Timeout)) ''How is the weather?''),
       GenerateContent (tool_result_prompt ''How is the weather?'' ''get_weather'' ''<repr>''
         ''Error: I need more information to use the 'get_weather' tool. Please provide: location.'')],
      2)"
    by (simp add: run_agent_def parse_intent_def execute_tool_def respond_def
      final_response_prompt_def make_result_def result_truthy_def intent_tool_name_def
      stub_def init_locals_def dict_get_def lookup_tool_def TOOLS_def missing_text_def py_str_def
      final_answer_def strip_def isspace_def Let_def)
  ultimately show ?thesis by simp
qed

section \<open>A failed classification\<close>

lemma parse_intent_raise:
  assumes "generate_content env w (intent_prompt env q) = (r, w1)"
    and "(\<exists>e. r = Inl e) \<or> r = Inr None \<or>
         (\<exists>reply. r = Inr (Some reply) \<and> (\<exists>e. json_loads env (clean reply) = Inl e))"
  shows "parse_intent env w q =
           (init_locals\<lparr>tool_to_use := JStr ''none''\<rparr>,
            [GenerateContent (intent_prompt env q)], w1)"
  using assms by (auto simp: parse_intent_def)

lemma parse_intent_value:
  assumes "generate_content env w (intent_prompt env q) = (Inr (Some reply), w1)"
    and "json_loads env (clean reply) = Inr v"
  shows "parse_intent env w q =
           ((case v of
               JObj kvs \<Rightarrow>
                 init_locals\<lparr>parsed_intent := Some v,
                   tool_to_use := dict_get kvs ''tool_name'' JNull,
                   parameters := dict_get kvs ''parameters'' (JObj [])\<rparr>
             | _ \<Rightarrow> init_locals\<lparr>tool_to_use := JStr ''none'', parsed_intent := Some v\<rparr>),
            [GenerateContent (intent_prompt env q)], w1)"
  using assms by (cases v) (simp_all add: parse_intent_def Let_def)

lemma run_agent_tool_free:
  assumes p: "parse_intent env w q = (l, evs1, w1)"
    and t: "tool_to_use l = JStr ''none'' \<or> tool_to_use l = JNull"
  shows "run_agent env w q =
      (Inr \<lparr>response = final_answer (fst (generate_content env w1 (no_tool_prompt q))),
            debug_info =
              \<lparr>dbg_parsed_intent =
                 (case parsed_intent l of None \<Rightarrow> JStr ''Parsing Failed'' | Some v \<Rightarrow> v),
               tool_called = JStr ''none'', tool_parameters = parameters l,
               dbg_tool_result = ''N/A''\<rparr>\<rparr>,
       [GenerateContent (intent_prompt env q), GenerateContent (no_tool_prompt q)],
       snd (generate_content env w1 (no_tool_prompt q)))"
proof -
  have tr: "tool_result l = None" by (rule parse_intent_shape(2) [OF p])
  have e1: "evs1 = [GenerateContent (intent_prompt env q)]"
    by (rule parse_intent_shape(1) [OF p])
  from t have nt: "\<not> truthy (tool_to_use l) \<or> tool_to_use l = JStr ''none''" by auto
  from t have nm: "tool_to_use l \<noteq> JStr ''none_missing_params''" by auto
  note ex = execute_tool_no_tool [OF nt, of env w1]
  note rs = respond_no_tool [OF tr nm, of env w1 q]
  from run_agent_unfold [OF p ex rs] e1 show ?thesis by simp
qed

lemma handle_agent_request_run:
  assumes "strip q \<noteq> []" and "run_agent env w q = (Inr res, evs, w')"
  shows "handle_agent_request env w q =
           (Inr (AgentResponse (response res) (debug_info res)), evs, w')"
proof -
  from assms(1) have "q \<noteq> []" by (auto simp: strip_def)
  with assms show ?thesis by (simp add: handle_agent_request_def)
qed

text \<open>
  C3, as the code has it. If the intent call raises or gives no text, or the cleaned text
  does not decode, the classification is \<^verbatim>\<open>"none"\<close> with empty parameters and no parsed
  intent; if the text decodes to a value that is not an object, the same, with that value
  as the parsed intent; if it decodes to an object whose \<^verbatim>\<open>"tool_name"\<close> is absent or
  null, the tool is \<^verbatim>\<open>None\<close> and the parameters are those of the object (empty when it
  has none). In each case the run calls no tool, uses the no-tool prompt and returns,
  and the endpoint answers a query that is not blank with that response. Below, \<open>t\<close>,
  \<open>ps\<close> and \<open>parsed\<close> are the tool, the parameters and the parsed intent of the case.
\<close>

theorem degraded_classification:
  assumes "generate_content env w (intent_prompt env q) = (r, w1)"
    and "((\<exists>e. r = Inl e) \<or> r = Inr None \<or>
          (\<exists>reply e. r = Inr (Some reply) \<and> json_loads env (clean reply) = Inl e)) \<and>
         t = JStr ''none'' \<and> ps = JObj [] \<and> parsed = JStr ''Parsing Failed'' \<or>
         (\<exists>reply v. r = Inr (Some reply) \<and> json_loads env (clean reply) = Inr v \<and>
            py_get v ''tool_name'' JNull = Inl AttributeError \<and>
            t = JStr ''none'' \<and> ps = JObj [] \<and> parsed = v) \<or>
         (\<exists>reply kvs. r = Inr (Some reply) \<and> json_loads env (clean reply) = Inr (JObj kvs) \<and>
            dict_get kvs ''tool_name'' JNull = JNull \<and>
            t = JNull \<and> ps = dict_get kvs ''parameters'' (JObj []) \<and> parsed = JObj kvs)"
  shows "tool_to_use (fst (parse_intent env w q)) = t \<and>
         parameters (fst (parse_intent env w q)) = ps \<and>
         run_agent env w q =
           (Inr \<lparr>response = final_answer (fst (generate_content env w1 (no_tool_prompt q))),
                 debug_info =
                   \<lparr>dbg_parsed_intent = parsed, tool_called = JStr ''none'',
                    tool_parameters = ps, dbg_tool_result = ''N/A''\<rparr>\<rparr>,
            [GenerateContent (intent_prompt env q), GenerateContent (no_tool_prompt q)],
            snd (generate_content env w1 (no_tool_prompt q))) \<and>
         (strip q \<noteq> [] \<longrightarrow>
            handle_agent_request env w q =
              (Inr (AgentResponse
                     (final_answer (fst (generate_content env w1 (no_tool_prompt q))))
                     \<lparr>dbg_parsed_intent = parsed, tool_called = JStr ''none'',
                      tool_parameters = ps, dbg_tool_result = ''N/A''\<rparr>),
               [GenerateContent (intent_prompt env q), GenerateContent (no_tool_prompt q)],
               snd (generate_content env w1 (no_tool_prompt q))))"
proof -
  have "\<exists>l. parse_intent env w q = (l, [GenerateContent (intent_prompt env q)], w1) \<and>
          tool_to_use l = t \<and> parameters l = ps \<and>
          (case parsed_intent l of None \<Rightarrow> JStr ''Parsing Failed'' | Some v \<Rightarrow> v) = parsed \<and>
          (t = JStr ''none'' \<or> t = JNull)"
  proof -
    from assms(2) consider
      (failed) "(\<exists>e. r = Inl e) \<or> r = Inr None \<or>
          (\<exists>reply. r = Inr (Some reply) \<and> (\<exists>e. json_loads env (clean reply) = Inl e))"
        "t = JStr ''none''" "ps = JObj []" "parsed = JStr ''Parsing Failed''"
      | (other) reply v where "r = Inr (Some reply)" "json_loads env (clean reply) = Inr v"
        "py_get v ''tool_name'' JNull = Inl AttributeError"
        "t = JStr ''none''" "ps = JObj []" "parsed = v"
      | (object) reply kvs where "r = Inr (Some reply)"
        "json_loads env (clean reply) = Inr (JObj kvs)"
        "dict_get kvs ''tool_name'' JNull = JNull"
        "t = JNull" "ps = dict_get kvs ''parameters'' (JObj [])" "parsed = JObj kvs"
      by blast
    then show ?thesis
    proof cases
      case failed
      from parse_intent_raise [OF assms(1) failed(1)] failed(2-4) show ?thesis
        by (simp add: init_locals_def)
    next
      case other
      from assms(1) other(1)
      have g: "generate_content env w (intent_prompt env q) = (Inr (Some reply), w1)"
        by simp
      from parse_intent_value [OF g other(2)] other(3-6) show ?thesis
        by (cases v) (simp_all add: init_locals_def)
    next
      case object
      from assms(1) object(1)
      have g: "generate_content env w (intent_prompt env q) = (Inr (Some reply), w1)"
        by simp
      from parse_intent_value [OF g object(2)] object(3-6) show ?thesis
        by (simp add: init_locals_def)
    qed
  qed
  then obtain l where
    p: "parse_intent env w q = (l, [GenerateContent (intent_prompt env q)], w1)"
    and l: "tool_to_use l = t" "parameters l = ps"
      "(case parsed_intent l of None \<Rightarrow> JStr ''Parsing Failed'' | Some v \<Rightarrow> v) = parsed"
    and t: "t = JStr ''none'' \<or> t = JNull"
    by (elim exE conjE)
  from t l(1) have "tool_to_use l = JStr ''none'' \<or> tool_to_use l = JNull" by simp
  from run_agent_tool_free [OF p this] l
  have run: "run_agent env w q =
           (Inr \<lparr>response = final_answer (fst (generate_content env w1 (no_tool_prompt q))),
                 debug_info =
                   \<lparr>dbg_parsed_intent = parsed, tool_called = JStr ''none'',
                    tool_parameters = ps, dbg_tool_result = ''N/A''\<rparr>\<rparr>,
            [GenerateContent (intent_prompt env q), GenerateContent (no_tool_prompt q)],
            snd (generate_content env w1 (no_tool_prompt q)))"
    by simp
  have h: "strip q \<noteq> [] \<longrightarrow>
            handle_agent_request env w q =
              (Inr (AgentResponse
                     (final_answer (fst (generate_content env w1 (no_tool_prompt q))))
                     \<lparr>dbg_parsed_intent = parsed, tool_called = JStr ''none'',
                      tool_parameters = ps, dbg_tool_result = ''N/A''\<rparr>),
               [GenerateContent (intent_prompt env q), GenerateContent (no_tool_prompt q)],
               snd (generate_content env w1 (no_tool_prompt q)))"
  proof
    assume "strip q \<noteq> []"
    from handle_agent_request_run [OF this run] show "handle_agent_request env w q =
              (Inr (AgentResponse
                     (final_answer (fst (generate_content env w1 (no_tool_prompt q))))
                     \<lparr>dbg_parsed_intent = parsed, tool_called = JStr ''none'',
                      tool_parameters = ps, dbg_tool_result = ''N/A''\<rparr>),
               [GenerateContent (intent_prompt env q), GenerateContent (no_tool_prompt q)],
               snd (generate_content env w1 (no_tool_prompt q)))"
      by simp
  qed
  from p l(1,2) have "tool_to_use (fst (parse_intent env w q)) = t"
    "parameters (fst (parse_intent env w q)) = ps" by simp_all
  with run h show ?thesis by (intro conjI)
qed


theorem degraded_classification_witness:
  "run_agent failing_llm 0 ''Tell me a joke.'' =
     (Inr \<lparr>response = FALLBACK_ANSWER,
           debug_info =
             \<lparr>dbg_parsed_intent = JStr ''Parsing Failed'', tool_called = JStr ''none'',
              tool_parameters = JObj [], dbg_tool_result = ''N/A''\<rparr>\<rparr>,
      [GenerateContent (intent_prompt failing_llm ''Tell me a joke.''),
       GenerateContent (no_tool_prompt ''Tell me a joke.'')],
      2) \<and>
   tool_to_use (fst (parse_intent failing_llm 0 ''Tell me a joke.'')) = JStr ''none'' \<and>
   parameters (fst (parse_intent failing_llm 0 ''Tell me a joke.'')) = JObj [] \<and>
   handle_agent_request (stub (JArr []) (Inl Timeout)) 0 ''Tell me a joke.'' =
     (Inr (AgentResponse ''ok''
            \<lparr>dbg_parsed_intent = JArr [], tool_called = JStr ''none'',
             tool_parameters = JObj [], dbg_tool_result = ''N/A''\<rparr>),
      [GenerateContent (intent_prompt (stub (JArr []) (Inl Timeout)) ''Tell me a joke.''),
       GenerateContent (no_tool_prompt ''Tell me a joke.'')],
      2) \<and>
   tool_to_use (fst (parse_intent (stub (JArr []) (Inl Timeout)) 0 ''Tell me a joke.'')) =
     JStr ''none'' \<and>
   run_agent (stub intent_no_tool_name (Inl Timeout)) 0 ''Tell me a joke.'' =
     (Inr \<lparr>response = ''ok'',
           debug_info =
             \<lparr>dbg_parsed_intent = intent_no_tool_name, tool_called = JStr ''none'',
              tool_parameters = JObj [(''location'', JStr ''Paris'')],
              dbg_tool_result = ''N/A''\<rparr>\<rparr>,
      [GenerateContent
         (intent_prompt (stub intent_no_tool_name (Inl Timeout)) ''Tell me a joke.''),
       GenerateContent (no_tool_prompt ''Tell me a joke.'')],
      2) \<and>
   tool_to_use (fst (parse_intent (stub intent_no_tool_name (Inl Timeout)) 0
     ''Tell me a joke.'')) = JNull"
  using
    degraded_classification
      [of failing_llm 0 "''Tell me a joke.''" "Inl OtherException" 1
          "JStr ''none''" "JObj []" "JStr ''Parsing Failed''"]
    degraded_classification
      [of "stub (JArr []) (Inl Timeout)" 0 "''Tell me a joke.''" "Inr (Some '' ok '')" 1
          "JStr ''none''" "JObj []" "JArr []"]
    degraded_classification
      [of "stub intent_no_tool_name (Inl Timeout)" 0 "''Tell me a joke.''"
          "Inr (Some '' ok '')" 1
          JNull "JObj [(''location'', JStr ''Paris'')]" intent_no_tool_name]
  by (simp add: stub_def final_answer_def strip_def isspace_def dict_get_def)

text \<open>
  The claim as stated fails when only the key \<^verbatim>\<open>"parameters"\<close> is absent: line 170
  defaults it to the empty dict and the tool named is still dispatched, here to the
  missing-parameters text and the tool-result prompt.
\<close>

theorem absent_parameters_counterexample:
  "map_of [(''tool_name'', JStr ''get_weather'')] ''parameters'' = None \<and>
   run_agent (stub intent_no_parameters (Inl Timeout)) 0 ''How is the weather?'' =
     (Inr \<lparr>response = ''ok'',
           debug_info =
             \<lparr>dbg_parsed_intent = intent_no_parameters, tool_called = JStr ''get_weather'',
              tool_parameters = JObj [],
              dbg_tool_result =
                ''Error: I need more information to use the 'get_weather' tool. Please provide: location.''\<rparr>\<rparr>,
      [GenerateContent
         (intent_prompt (stub intent_no_parameters (Inl Timeout)) ''How is the weather?''),
       GenerateContent (tool_result_prompt ''How is the weather?'' ''get_weather'' ''<repr>''
         ''Error: I need more information to use the 'get_weather' tool. Please provide: location.'')],
      2) \<and>
   tool_result_prompt ''How is the weather?'' ''get_weather'' ''<repr>''
      ''Error: I need more information to use the 'get_weather' tool. Please provide: location.'' \<noteq>
   no_tool_prompt ''How is the weather?''"
proof -
  have "tool_result_prompt ''How is the weather?'' ''get_weather'' ''<repr>''
      ''Error: I need more information to use the 'get_weather' tool. Please provide: location.'' \<noteq>
   no_tool_prompt ''How is the weather?''"
    by (simp add: tool_result_prompt_def no_tool_prompt_def)
  moreover have "run_agent (stub intent_no_parameters (Inl Timeout)) 0 ''How is the weather?'' =
     (Inr \<lparr>response = ''ok'',
           debug_info =
             \<lparr>dbg_parsed_intent = intent_no_parameters, tool_called = JStr ''get_weather'',
              tool_parameters = JObj [],
              dbg_tool_result =
                ''Error: I need more information to use the 'get_weather' tool. Please provide: location.''\<rparr>\<rparr>,
      [GenerateContent
         (intent_prompt (stub intent_no_parameters (Inl Timeout)) ''How is the weather?''),
       GenerateContent (tool_result_prompt ''How is the weather?'' ''get_weather'' ''<repr>''
         ''Error: I need more information to use the 'get_weather' tool. Please provide: location.'')],
      2)"
    by (simp add: run_agent_def parse_intent_def execute_tool_def respond_def
      final_response_prompt_def make_result_def result_truthy_def intent_tool_name_def
      stub_def init_locals_def dict_get_def lookup_tool_def TOOLS_def missing_text_def py_str_def
      final_answer_def strip_def isspace_def Let_def)
  ultimately show ?thesis by simp
qed

section \<open>A complete classification calls the tool once\<close>

lemma weather_sentence_nonempty: "weather_sentence a b c d e \<noteq> []"
  by (simp add: weather_sentence_def)

lemma weather_of_data_nonempty:
  assumes "weather_of_data env loc data = Inr s"
  shows "s \<noteq> []"
proof (cases data)
  case (JObj d)
  show ?thesis
  proof (cases "cod_200 (dict_get d ''cod'' JNull)")
    case True
    with assms JObj obtain a b c d' e where "s = weather_sentence a b c d' e"
      by (auto simp: weather_of_data_def Let_def split: sum.splits)
    then show ?thesis by (simp add: weather_sentence_nonempty)
  next
    case False
    with assms JObj show ?thesis
      by (auto simp: weather_of_data_def split: if_splits)
  qed
qed (use assms in \<open>simp_all add: weather_of_data_def\<close>)

lemma weather_except_nonempty: "weather_except e \<noteq> []"
  by (simp add: weather_except_def ERR_TIMEOUT_def ERR_CONNECT_def ERR_FORMAT_def
      ERR_UNEXPECTED_def)

lemma get_weather_nonempty:
  assumes "fst (get_weather env w loc) = Inr s"
  shows "s \<noteq> []"
proof (cases "truthy loc")
  case False
  with assms show ?thesis by (auto simp: get_weather_def ERR_NO_LOCATION_def)
next
  case True
  show ?thesis
  proof (cases loc)
    case (JStr x)
    show ?thesis
    proof (cases "strip x = []")
      case True
      with assms JStr \<open>truthy loc\<close> show ?thesis
        by (auto simp: get_weather_def ERR_NO_LOCATION_def)
    next
      case False
      define res where "res = (case read_response (fst (requests_get env w (complete_url env x) 10)) of
                             Inl e \<Rightarrow> Inl e
                           | Inr data \<Rightarrow> weather_of_data env x data)"
      from assms JStr \<open>truthy loc\<close> False
      have s: "s = (case res of Inl e \<Rightarrow> weather_except e | Inr s \<Rightarrow> s)"
        by (simp add: get_weather_def Let_def split_beta res_def)
      show ?thesis
      proof (cases res)
        case (Inl e)
        with s show ?thesis by (simp add: weather_except_nonempty)
      next
        case (Inr t)
        then have "weather_of_data env x (projr (read_response (fst (requests_get env w (complete_url env x) 10)))) = Inr t"
          by (auto simp: res_def split: sum.splits)
        from weather_of_data_nonempty [OF this] Inr s show ?thesis by simp
      qed
    qed
  qed (use assms True in \<open>simp_all add: get_weather_def\<close>)
qed


lemma failed_text_nonempty: "failed_text env t \<noteq> []"
  by (simp add: failed_text_def)

text \<open>
  C4, as the code has it. When the query is classified to a registered tool and the keys
  of the parsed parameters are exactly the names of the tool's signature, the run calls
  the tool once: \<^verbatim>\<open>get_weather\<close> runs once, on the value of \<^verbatim>\<open>location\<close> and in the world
  that the intent call left. What it returns (or, if it raises, the text of line 195) is
  the tool result; its calls follow the one \<open>ToolCall\<close> event in the trace; the final
  prompt is the tool-result prompt carrying that result.
\<close>

theorem tool_invoked_once:
  assumes "parse_intent env w q = (l, evs1, w1)"
    and "lookup_tool (tool_to_use l) = Some f"
    and "parameters l = JObj kvs"
    and "fst ` set kvs = set (co_params f)"
  shows "case get_weather env w1 (dict_get kvs ''location'' JNull) of
           (r, evs, w2) \<Rightarrow>
             let msg = (case r of Inl e \<Rightarrow> failed_text env (JStr ''get_weather'') | Inr s \<Rightarrow> s);
                 prompt = tool_result_prompt q ''get_weather'' (py_repr env (JObj kvs)) msg
             in run_agent env w q =
                  (Inr \<lparr>response = final_answer (fst (generate_content env w2 prompt)),
                        debug_info =
                          \<lparr>dbg_parsed_intent =
                             (case parsed_intent l of
                                None \<Rightarrow> JStr ''Parsing Failed'' | Some v \<Rightarrow> v),
                           tool_called = JStr ''get_weather'', tool_parameters = JObj kvs,
                           dbg_tool_result = msg\<rparr>\<rparr>,
                   [GenerateContent (intent_prompt env q), ToolCall f (JObj kvs)] @ evs @
                   [GenerateContent prompt],
                   snd (generate_content env w2 prompt)) \<and>
                filter is_tool_call (fst (snd (run_agent env w q))) = [ToolCall f (JObj kvs)]"
proof -
  from lookup_tool_Some [OF assms(2)]
  have t: "tool_to_use l = JStr ''get_weather''" and f: "f = Get_weather" by simp_all
  obtain r evs w2 where g: "get_weather env w1 (dict_get kvs ''location'' JNull) = (r, evs, w2)"
    by (cases "get_weather env w1 (dict_get kvs ''location'' JNull)")
  from call_tool_exact [OF assms(4), of env w1] g assms(3)
  have c: "call_tool env w1 f (parameters l) = (r, evs, w2)" by simp
  from get_weather_events [of env w1 "dict_get kvs ''location'' JNull"] g
  have evs: "filter is_tool_call evs = []" by simp
  from assms(3,4) have ok: "all_in (co_params f) (parameters l) = Inr True"
    by (simp add: all_in_dict)
  define msg where "msg = (case r of Inl e \<Rightarrow> failed_text env (JStr ''get_weather'') | Inr s \<Rightarrow> s)"
  define l2 where "l2 = l\<lparr>required_params := Some (co_params f), tool_result := Some msg\<rparr>"
  from execute_tool_call [OF assms(2) ok c]
  have ex: "execute_tool env w1 l = (Inr l2, ToolCall f (parameters l) # evs, w2)"
    by (simp add: l2_def msg_def t cong: sum.case_cong)
  have ne: "msg \<noteq> []"
  proof (cases r)
    case (Inl e)
    then show ?thesis by (simp add: msg_def failed_text_nonempty)
  next
    case (Inr s)
    with g have "fst (get_weather env w1 (dict_get kvs ''location'' JNull)) = Inr s" by simp
    from get_weather_nonempty [OF this] Inr show ?thesis by (simp add: msg_def)
  qed
  have "tool_to_use l \<noteq> JStr ''none''" by (simp add: t)
  from parsed_object [OF assms(1) this] obtain obj where
    p: "parsed_intent l = Some (JObj obj)" and n: "tool_to_use l = dict_get obj ''tool_name'' JNull"
    by (elim exE conjE)
  have "tool_to_use l \<noteq> JNull" by (simp add: t)
  moreover from n have "dict_get obj ''tool_name'' JNull = tool_to_use l" by simp
  ultimately have "dict_get obj ''tool_name'' (JStr ''N/A'') = tool_to_use l"
    by (rule dict_get_default [rotated])
  with t have name: "dict_get obj ''tool_name'' (JStr ''N/A'') = JStr ''get_weather''" by simp
  have l2f: "tool_result l2 = Some msg" "parsed_intent l2 = Some (JObj obj)"
    "parameters l2 = JObj kvs"
    by (simp_all add: l2_def p assms(3))
  note rs = respond_tool_result [OF l2f(1) ne l2f(2), of env w2 q]
  have e1: "evs1 = [GenerateContent (intent_prompt env q)]"
    by (rule parse_intent_shape(1) [OF assms(1)])
  define prompt where
    "prompt = tool_result_prompt q ''get_weather'' (py_repr env (JObj kvs)) msg"
  have "run_agent env w q =
      (fst (respond env w2 q l2),
       evs1 @ (ToolCall f (parameters l) # evs) @ fst (snd (respond env w2 q l2)),
       snd (snd (respond env w2 q l2)))"
    by (rule run_agent_unfold [OF assms(1) ex]) simp
  then have run: "run_agent env w q =
                  (Inr \<lparr>response = final_answer (fst (generate_content env w2 prompt)),
                        debug_info =
                          \<lparr>dbg_parsed_intent =
                             (case parsed_intent l of
                                None \<Rightarrow> JStr ''Parsing Failed'' | Some v \<Rightarrow> v),
                           tool_called = JStr ''get_weather'', tool_parameters = JObj kvs,
                           dbg_tool_result = msg\<rparr>\<rparr>,
                   [GenerateContent (intent_prompt env q), ToolCall f (JObj kvs)] @ evs @
                   [GenerateContent prompt],
                   snd (generate_content env w2 prompt))"
    by (simp add: rs name l2f(3) e1 p assms(3) py_str_def Let_def prompt_def)
  then have once: "filter is_tool_call (fst (snd (run_agent env w q))) = [ToolCall f (JObj kvs)]"
    by (simp add: evs)
  from run once show ?thesis
    unfolding g prod.case Let_def msg_def [symmetric] prompt_def [symmetric] by (rule conjI)
qed


theorem tool_invoked_once_witness:
  "parse_intent (stub intent_london (Inl Timeout)) 0 ''weather in London?'' =
     (\<lparr>parsed_intent = Some intent_london, tool_to_use = JStr ''get_weather'',
       parameters = JObj [(''location'', JStr ''London'')],
       tool_result = None, required_params = None\<rparr>,
      [GenerateContent (intent_prompt (stub intent_london (Inl Timeout)) ''weather in London?'')],
      1) \<and>
   lookup_tool (JStr ''get_weather'') = Some Get_weather \<and>
   fst ` set [(''location'', JStr ''London'')] = set (co_params Get_weather) \<and>
   get_weather (stub intent_london (Inl Timeout)) 1 (JStr ''London'') =
     (Inr ERR_TIMEOUT,
      [RequestsGet ''http://api.openweathermap.org/data/2.5/weather?appid=key&q=London&units=metric'' 10],
      2) \<and>
   run_agent (stub intent_london (Inl Timeout)) 0 ''weather in London?'' =
     (Inr \<lparr>response = ''ok'',
           debug_info =
             \<lparr>dbg_parsed_intent = intent_london, tool_called = JStr ''get_weather'',
              tool_parameters = JObj [(''location'', JStr ''London'')],
              dbg_tool_result = ERR_TIMEOUT\<rparr>\<rparr>,
      [GenerateContent (intent_prompt (stub intent_london (Inl Timeout)) ''weather in London?''),
       ToolCall Get_weather (JObj [(''location'', JStr ''London'')]),
       RequestsGet ''http://api.openweathermap.org/data/2.5/weather?appid=key&q=London&units=metric'' 10,
       GenerateContent
         (tool_result_prompt ''weather in London?'' ''get_weather'' ''<repr>'' ERR_TIMEOUT)],
      3)"
proof -
  show ?thesis
    using tool_invoked_once
      [of "stub intent_london (Inl Timeout)" 0 "''weather in London?''"
        "\<lparr>parsed_intent = Some intent_london, tool_to_use = JStr ''get_weather'',
          parameters = JObj [(''location'', JStr ''London'')],
          tool_result = None, required_params = None\<rparr>"
        "[GenerateContent (intent_prompt (stub intent_london (Inl Timeout)) ''weather in London?'')]"
        1 Get_weather "[(''location'', JStr ''London'')]"]
    by (simp add: parse_intent_def init_locals_def dict_get_def lookup_tool_def TOOLS_def
        Let_def stub_def final_answer_def strip_def isspace_def get_weather_def
        complete_url_def read_response_def weather_except_def failed_text_def py_str_def)
qed

text \<open>
  The claim as stated fails when the parameters have a key beyond the signature: every
  required name is present, yet the call raises \<^verbatim>\<open>TypeError\<close> while binding the
  arguments, \<^verbatim>\<open>get_weather\<close> does not run (it would make a request here), and the tool
  result is the text of line 195.
\<close>

theorem extra_key_counterexample:
  "lookup_tool (JStr ''get_weather'') = Some Get_weather \<and>
   set (co_params Get_weather) \<subseteq>
     fst ` set [(''location'', JStr ''London''), (''units'', JStr ''metric'')] \<and>
   call_tool (stub intent_extra (Inl Timeout)) 1 Get_weather
     (JObj [(''location'', JStr ''London''), (''units'', JStr ''metric'')]) =
     (Inl TypeError, [], 1) \<and>
   get_weather (stub intent_extra (Inl Timeout)) 1 (JStr ''London'') =
     (Inr ERR_TIMEOUT,
      [RequestsGet ''http://api.openweathermap.org/data/2.5/weather?appid=key&q=London&units=metric'' 10],
      2) \<and>
   run_agent (stub intent_extra (Inl Timeout)) 0 ''weather in London?'' =
     (Inr \<lparr>response = ''ok'',
           debug_info =
             \<lparr>dbg_parsed_intent = intent_extra, tool_called = JStr ''get_weather'',
              tool_parameters =
                JObj [(''location'', JStr ''London''), (''units'', JStr ''metric'')],
              dbg_tool_result = ''Error: Failed to execute the tool 'get_weather'.''\<rparr>\<rparr>,
      [GenerateContent (intent_prompt (stub intent_extra (Inl Timeout)) ''weather in London?''),
       ToolCall Get_weather (JObj [(''location'', JStr ''London''), (''units'', JStr ''metric'')]),
       GenerateContent (tool_result_prompt ''weather in London?'' ''get_weather'' ''<repr>''
          ''Error: Failed to execute the tool 'get_weather'.'')],
      2)"
proof -
  have "get_weather (stub intent_extra (Inl Timeout)) 1 (JStr ''London'') =
     (Inr ERR_TIMEOUT,
      [RequestsGet ''http://api.openweathermap.org/data/2.5/weather?appid=key&q=London&units=metric'' 10],
      2)"
    by (simp add: get_weather_def stub_def strip_def isspace_def complete_url_def
        read_response_def weather_except_def)
  moreover have "call_tool (stub intent_extra (Inl Timeout)) 1 Get_weather
     (JObj [(''location'', JStr ''London''), (''units'', JStr ''metric'')]) =
     (Inl TypeError, [], 1)"
    by (simp add: call_tool_def)
  moreover have "run_agent (stub intent_extra (Inl Timeout)) 0 ''weather in London?'' =
     (Inr \<lparr>response = ''ok'',
           debug_info =
             \<lparr>dbg_parsed_intent = intent_extra, tool_called = JStr ''get_weather'',
              tool_parameters =
                JObj [(''location'', JStr ''London''), (''units'', JStr ''metric'')],
              dbg_tool_result = ''Error: Failed to execute the tool 'get_weather'.''\<rparr>\<rparr>,
      [GenerateContent (intent_prompt (stub intent_extra (Inl Timeout)) ''weather in London?''),
       ToolCall Get_weather (JObj [(''location'', JStr ''London''), (''units'', JStr ''metric'')]),
       GenerateContent (tool_result_prompt ''weather in London?'' ''get_weather'' ''<repr>''
          ''Error: Failed to execute the tool 'get_weather'.'')],
      2)"
    by (simp add: run_agent_def parse_intent_def execute_tool_def respond_def call_tool_def
      final_response_prompt_def make_result_def result_truthy_def intent_tool_name_def
      stub_def init_locals_def dict_get_def lookup_tool_def TOOLS_def failed_text_def py_str_def
      final_answer_def strip_def isspace_def Let_def)
  ultimately show ?thesis by (simp add: lookup_tool_def TOOLS_def)
qed

section \<open>Two runs against deterministic collaborators\<close>

lemma get_weather_det:
  assumes "\<And>w u t. fst (requests_get env w u t) = R u t"
  shows "fst (get_weather env w loc) = fst (get_weather env w' loc) \<and>
         fst (snd (get_weather env w loc)) = fst (snd (get_weather env w' loc))"
  by (cases loc) (simp_all add: get_weather_def split_beta Let_def assms)

lemma call_tool_det:
  assumes "\<And>w u t. fst (requests_get env w u t) = R u t"
  shows "fst (call_tool env w f ps) = fst (call_tool env w' f ps) \<and>
         fst (snd (call_tool env w f ps)) = fst (snd (call_tool env w' f ps))"
  using get_weather_det [of env R, OF assms]
  by (cases ps; cases f) (simp_all add: call_tool_def split: option.split)

lemma execute_tool_det:
  assumes "\<And>w u t. fst (requests_get env w u t) = R u t"
  shows "fst (execute_tool env w l) = fst (execute_tool env w' l) \<and>
         fst (snd (execute_tool env w l)) = fst (snd (execute_tool env w' l))"
proof -
  have c: "\<And>f ps. fst (call_tool env w f ps) = fst (call_tool env w' f ps)"
    "\<And>f ps. fst (snd (call_tool env w f ps)) = fst (snd (call_tool env w' f ps))"
    using call_tool_det [of env R, OF assms] by simp_all
  show ?thesis
    by (auto simp add: execute_tool_def split_beta Let_def c split: option.split sum.split)
qed

lemma parse_intent_det:
  assumes "\<And>w p. fst (generate_content env w p) = G p"
  shows "fst (parse_intent env w q) = fst (parse_intent env w' q) \<and>
         fst (snd (parse_intent env w q)) = fst (snd (parse_intent env w' q))"
  by (simp add: parse_intent_def split_beta Let_def assms)

lemma respond_det:
  assumes "\<And>w p. fst (generate_content env w p) = G p"
  shows "fst (respond env w q l) = fst (respond env w' q l) \<and>
         fst (snd (respond env w q l)) = fst (snd (respond env w' q l))"
  by (simp add: respond_def split_beta Let_def assms split: sum.split)

lemma run_agent_det:
  assumes g: "\<And>w p. fst (generate_content env w p) = G p"
    and r: "\<And>w u t. fst (requests_get env w u t) = R u t"
  shows "fst (run_agent env w q) = fst (run_agent env w' q) \<and>
         fst (snd (run_agent env w q)) = fst (snd (run_agent env w' q))"
proof -
  obtain l e1 w1 where p: "parse_intent env w q = (l, e1, w1)"
    by (cases "parse_intent env w q")
  obtain l' e1' w1' where p': "parse_intent env w' q = (l', e1', w1')"
    by (cases "parse_intent env w' q")
  from parse_intent_det [of env G w q w', OF g] p p' have pe: "l' = l" "e1' = e1" by simp_all
  obtain x e2 w2 where x: "execute_tool env w1 l = (x, e2, w2)"
    by (cases "execute_tool env w1 l")
  obtain x' e2' w2' where x': "execute_tool env w1' l = (x', e2', w2')"
    by (cases "execute_tool env w1' l")
  from execute_tool_det [of env R w1 l w1', OF r] x x' have xe: "x' = x" "e2' = e2"
    by simp_all
  show ?thesis
  proof (cases x)
    case (Inl e)
    with p p' pe x x' xe show ?thesis by (simp add: run_agent_def)
  next
    case (Inr l2)
    from respond_det [of env G w2 q l2 w2', OF g]
    have "fst (respond env w2 q l2) = fst (respond env w2' q l2)"
      "fst (snd (respond env w2 q l2)) = fst (snd (respond env w2' q l2))" by simp_all
    with Inr p p' pe x x' xe show ?thesis by (simp add: run_agent_def split_beta)
  qed
qed

text \<open>
  C9. Collaborators are deterministic when what the model call and the HTTP request
  return does not depend on the state of the world they are called in. Then two runs on
  the same query, from any two states (so also one after the other), give the same
  outcome, and with it byte-identical response text, and make the same calls; the same
  holds of the endpoint.
\<close>

theorem deterministic_runs_agree:
  assumes "\<forall>w w' p. fst (generate_content env w p) = fst (generate_content env w' p)"
    and "\<forall>w w' u t. fst (requests_get env w u t) = fst (requests_get env w' u t)"
  shows "fst (run_agent env w q) = fst (run_agent env w' q) \<and>
         fst (snd (run_agent env w q)) = fst (snd (run_agent env w' q)) \<and>
         fst (run_agent env (snd (snd (run_agent env w q))) q) = fst (run_agent env w q) \<and>
         fst (handle_agent_request env w q) = fst (handle_agent_request env w' q) \<and>
         fst (handle_agent_request env (snd (snd (handle_agent_request env w q))) q) =
           fst (handle_agent_request env w q)"
proof -
  define G where "G = (\<lambda>p. fst (generate_content env w p))"
  define R where "R = (\<lambda>u t. fst (requests_get env w u t))"
  have g: "\<And>v p. fst (generate_content env v p) = G p"
    using assms(1) unfolding G_def by blast
  have r: "\<And>v u t. fst (requests_get env v u t) = R u t"
    using assms(2) unfolding R_def by blast
  have a: "\<And>v v'. fst (run_agent env v q) = fst (run_agent env v' q)"
    "\<And>v v'. fst (snd (run_agent env v q)) = fst (snd (run_agent env v' q))"
    using run_agent_det [of env G R, OF g r] by blast+
  have h: "\<And>v v'. fst (handle_agent_request env v q) = fst (handle_agent_request env v' q)"
  proof -
    fix v v'
    from a(1) [of v v'] show "fst (handle_agent_request env v q) = fst (handle_agent_request env v' q)"
      by (simp add: handle_agent_request_def split_beta)
  qed
  from a(1) [of w w'] a(2) [of w w'] a(1) [of "snd (snd (run_agent env w q))" w]
    h [of w w'] h [of "snd (snd (handle_agent_request env w q))" w]
  show ?thesis by (intro conjI)
qed

theorem deterministic_runs_agree_witness:
  "fst (run_agent (stub intent_london (Inl Timeout)) 0 ''Weather in London?'') =
     fst (run_agent (stub intent_london (Inl Timeout)) 7 ''Weather in London?'') \<and>
   snd (snd (run_agent (stub intent_london (Inl Timeout)) 0 ''Weather in London?'')) = 3 \<and>
   fst (run_agent (stub intent_london (Inl Timeout)) 3 ''Weather in London?'') =
     fst (run_agent (stub intent_london (Inl Timeout)) 0 ''Weather in London?'') \<and>
   snd (snd (run_agent (stub intent_london (Inl Timeout)) 3 ''Weather in London?'')) = 6"
  using deterministic_runs_agree
    [of "stub intent_london (Inl Timeout)" 0 "''Weather in London?''" 7]
  by (simp add: stub_def run_agent_def parse_intent_def execute_tool_def respond_def
      call_tool_def get_weather_def lookup_tool_def TOOLS_def init_locals_def dict_get_def
      final_response_prompt_def result_truthy_def intent_tool_name_def make_result_def
      read_response_def weather_except_def ERR_TIMEOUT_def strip_def isspace_def Let_def)

section \<open>A parameters value that is no container\<close>

text \<open>
  C2 at the intent \<^verbatim>\<open>{"tool_name": "get_weather", "parameters": null}\<close>: the test
  \<^verbatim>\<open>param in parameters\<close> of line 188 raises \<^verbatim>\<open>TypeError\<close> outside every \<^verbatim>\<open>try\<close>, so
  \<^verbatim>\<open>run_agent\<close> raises after the one intent call, and the endpoint answers with status
  500.
\<close>

theorem null_parameters_raise:
  "run_agent (stub intent_null_parameters (Inl Timeout)) 0 ''How is the weather?'' =
     (Inl TypeError,
      [GenerateContent
         (intent_prompt (stub intent_null_parameters (Inl Timeout)) ''How is the weather?'')],
      1) \<and>
   handle_agent_request (stub intent_null_parameters (Inl Timeout)) 0 ''How is the weather?'' =
     (Inl (HTTPException 500 ''Internal Server Error: An unexpected error occurred.''),
      [GenerateContent
         (intent_prompt (stub intent_null_parameters (Inl Timeout)) ''How is the weather?'')],
      1)"
  by (simp add: handle_agent_request_def run_agent_def parse_intent_def execute_tool_def
      stub_def init_locals_def dict_get_def lookup_tool_def TOOLS_def strip_def isspace_def
      Let_def)

section \<open>The success sentence\<close>

lemma describe_shape:
  assumes "\<not> truthy wl \<and> description = JStr ''N/A'' \<or>
           (\<exists>first rest. wl = JArr (JObj first # rest) \<and>
              description = dict_get first ''description'' (JStr ''N/A''))"
  shows "describe wl = Inr description"
  using assms by (auto simp: describe_def)

text \<open>
  C6, as the code has it. The location is not blank, the request returns a response
  whose status is not one of 500 to 599 and whose body decodes to an object with
  \<^verbatim>\<open>cod\<close> equal to 200; \<^verbatim>\<open>main\<close>, when present, is an object, and \<^verbatim>\<open>weather\<close>, when present
  and true, is a list whose first element is an object. Then \<^verbatim>\<open>get_weather\<close> returns the
  sentence formatted from the city name (the location when the body has none), the
  description, the temperature, the feels-like temperature and the humidity (each
  \<^verbatim>\<open>N/A\<close> when absent), after the one request.
\<close>

theorem weather_success_sentence:
  assumes "strip loc \<noteq> []"
    and "requests_get env w (complete_url env loc) 10 = (Inr resp, w')"
    and "status_code resp < 500 \<or> 600 \<le> status_code resp"
    and "json_body resp = Inr (JObj d)"
    and "dict_get d ''cod'' JNull = JInt 200 \<or> dict_get d ''cod'' JNull = JFloat 200"
    and "dict_get d ''main'' (JObj []) = JObj m"
    and "\<not> truthy (dict_get d ''weather'' (JArr [])) \<and> description = JStr ''N/A'' \<or>
         (\<exists>first rest. dict_get d ''weather'' (JArr []) = JArr (JObj first # rest) \<and>
            description = dict_get first ''description'' (JStr ''N/A''))"
  shows "get_weather env w (JStr loc) =
           (Inr (weather_sentence
                   (py_str env (dict_get d ''name'' (JStr loc)))
                   (py_str env description)
                   (py_str env (dict_get m ''temp'' (JStr ''N/A'')))
                   (py_str env (dict_get m ''feels_like'' (JStr ''N/A'')))
                   (py_str env (dict_get m ''humidity'' (JStr ''N/A'')))),
            [RequestsGet (complete_url env loc) 10], w')"
proof -
  from assms(1) have t: "truthy (JStr loc)" by (auto simp: strip_def)
  from assms(3,4) have r: "read_response (Inr resp) = Inr (JObj d)"
    by (auto simp: read_response_def)
  from assms(5) have c: "cod_200 (dict_get d ''cod'' JNull)" by (simp add: cod_200_def)
  have "weather_of_data env loc (JObj d) =
          Inr (weather_sentence
                   (py_str env (dict_get d ''name'' (JStr loc)))
                   (py_str env description)
                   (py_str env (dict_get m ''temp'' (JStr ''N/A'')))
                   (py_str env (dict_get m ''feels_like'' (JStr ''N/A'')))
                   (py_str env (dict_get m ''humidity'' (JStr ''N/A''))))"
    using c assms(6) describe_shape [OF assms(7)]
    by (simp add: weather_of_data_def Let_def)
  with t r assms(1,2) show ?thesis by (simp add: get_weather_def)
qed

theorem weather_success_sentence_witness:
  "get_weather (stub JNull (Inr \<lparr>status_code = 200, json_body = Inr body_london\<rparr>)) 0
     (JStr ''London'') =
     (Inr (''The weather in London is currently clear sky with a temperature of 21.5'' @
           [CHR 0xB0] @ ''C (feels like 20.9'' @ [CHR 0xB0] @ ''C) and humidity of 60%.''),
      [RequestsGet ''http://api.openweathermap.org/data/2.5/weather?appid=key&q=London&units=metric'' 10],
      1)"
  using weather_success_sentence
    [of "''London''" "stub JNull (Inr \<lparr>status_code = 200, json_body = Inr body_london\<rparr>)" 0
        "\<lparr>status_code = 200, json_body = Inr body_london\<rparr>" 1
        "[(''cod'', JInt 200), (''name'', JStr ''London''),
           (''main'', JObj [(''temp'', JStr ''21.5''), (''feels_like'', JStr ''20.9''),
                            (''humidity'', JStr ''60'')]),
           (''weather'', JArr [JObj [(''description'', JStr ''clear sky'')]])]"
        "[(''temp'', JStr ''21.5''), (''feels_like'', JStr ''20.9''), (''humidity'', JStr ''60'')]"
        "JStr ''clear sky''"]
  by (simp add: stub_def strip_def isspace_def dict_get_def complete_url_def py_str_def
      weather_sentence_def)

text \<open>
  The claim as stated fails for a body with \<^verbatim>\<open>cod\<close> 200 whose \<^verbatim>\<open>main\<close> is \<^verbatim>\<open>null\<close>: the
  \<^verbatim>\<open>.get\<close> of line 72 raises inside the \<^verbatim>\<open>try\<close> and the last \<^verbatim>\<open>except\<close> clause returns its
  error text. It also fails when that body comes with status 503, which line 64 turns
  into the connection error.
\<close>

theorem malformed_body_counterexample:
  "dict_get [(''cod'', JInt 200), (''name'', JStr ''London''), (''main'', JNull)] ''cod'' JNull =
     JInt 200 \<and>
   get_weather (stub JNull (Inr \<lparr>status_code = 200, json_body = Inr body_null_main\<rparr>)) 0
     (JStr ''London'') =
     (Inr ''Error: An unexpected error occurred while fetching weather data.'',
      [RequestsGet (complete_url (stub JNull (Inl Timeout)) ''London'') 10], 1) \<and>
   get_weather (stub JNull (Inr \<lparr>status_code = 503, json_body = Inr body_london\<rparr>)) 0
     (JStr ''London'') =
     (Inr ''Error: Could not connect to the weather service. Please check your connection or try again later.'',
      [RequestsGet (complete_url (stub JNull (Inl Timeout)) ''London'') 10], 1)"
  by (simp add: get_weather_def stub_def strip_def isspace_def dict_get_def complete_url_def
      read_response_def weather_of_data_def cod_200_def weather_except_def ERR_UNEXPECTED_def
      ERR_CONNECT_def isinstance_RequestException_def Let_def)

end
